theory Spec2Isabelle
  imports Main
begin

section \<open>Errors\<close>

text \<open>
  Go error values, as far as \<open>pkg/store/instance.go\<close> tells them apart: the three
  sentinels of package \<open>os\<close> that the code tests with \<open>errors.Is\<close>, an error made by
  \<open>errors.New\<close>, and an error made by \<open>fmt.Errorf\<close>, kept as its format string and its
  arguments (the text is not rendered), with the wrapped error when the format has \<open>%w\<close>.
\<close>

datatype sentinel = ErrNotExist | ErrPermission | ErrProcessDone

datatype error =
    Sentinel sentinel
  | errors_New string
  | Errorf string "string list"
  | Errorf_w string "string list" error

text \<open>\<open>errors.Is\<close> against a sentinel: follows the chain of wrapped errors.\<close>

fun errors_Is :: "error \<Rightarrow> sentinel \<Rightarrow> bool" where
  "errors_Is (Sentinel s) t = (s = t)"
| "errors_Is (errors_New m) t = False"
| "errors_Is (Errorf f args) t = False"
| "errors_Is (Errorf_w f args e) t = errors_Is e t"

section \<open>strings.TrimSpace and strconv.Atoi\<close>

text \<open>
  A Go string is a sequence of bytes. \<open>strings.TrimSpace\<close> removes the leading and the
  trailing white space, where white space is what \<open>unicode.IsSpace\<close> accepts; the list
  below gives the UTF-8 encoding of each such code point (tab, line feed, vertical tab,
  form feed, carriage return, space, U+0085, U+00A0, U+1680, U+2000 to U+200A, U+2028,
  U+2029, U+202F, U+205F, U+3000).
\<close>

definition space_runes :: "string list" where
  "space_runes =
    [[CHR 0x09], [CHR 0x0A], [CHR 0x0B], [CHR 0x0C], [CHR 0x0D], [CHR 0x20],
     [CHR 0xC2, CHR 0x85], [CHR 0xC2, CHR 0xA0],
     [CHR 0xE1, CHR 0x9A, CHR 0x80],
     [CHR 0xE2, CHR 0x80, CHR 0x80], [CHR 0xE2, CHR 0x80, CHR 0x81],
     [CHR 0xE2, CHR 0x80, CHR 0x82], [CHR 0xE2, CHR 0x80, CHR 0x83],
     [CHR 0xE2, CHR 0x80, CHR 0x84], [CHR 0xE2, CHR 0x80, CHR 0x85],
     [CHR 0xE2, CHR 0x80, CHR 0x86], [CHR 0xE2, CHR 0x80, CHR 0x87],
     [CHR 0xE2, CHR 0x80, CHR 0x88], [CHR 0xE2, CHR 0x80, CHR 0x89],
     [CHR 0xE2, CHR 0x80, CHR 0x8A],
     [CHR 0xE2, CHR 0x80, CHR 0xA8], [CHR 0xE2, CHR 0x80, CHR 0xA9],
     [CHR 0xE2, CHR 0x80, CHR 0xAF], [CHR 0xE2, CHR 0x81, CHR 0x9F],
     [CHR 0xE3, CHR 0x80, CHR 0x80]]"

text \<open>The number of bytes of the rune of \<open>rs\<close> that \<open>s\<close> starts with; 0 when there is none.\<close>

definition rune_width :: "string list \<Rightarrow> string \<Rightarrow> nat" where
  "rune_width rs s =
    (case find (\<lambda>r. take (length r) s = r) rs of None \<Rightarrow> 0 | Some r \<Rightarrow> length r)"

function trim_runes :: "string list \<Rightarrow> string \<Rightarrow> string" where
  "trim_runes rs s =
    (if s = [] \<or> rune_width rs s = 0 then s else trim_runes rs (drop (rune_width rs s) s))"
  by pat_completeness auto
termination
  by (relation "measure (\<lambda>(rs, s). length s)") auto

definition TrimSpace :: "string \<Rightarrow> string" where
  "TrimSpace s = rev (trim_runes (map rev space_runes) (rev (trim_runes space_runes s)))"

text \<open>
  \<open>strconv.Atoi\<close>: an optional sign, then one or more decimal digits, and the value must
  fit the 64-bit \<open>int\<close>. The two failures are \<open>strconv.NumError\<close> values.
\<close>

definition is_digit :: "char \<Rightarrow> bool" where
  "is_digit c = (48 \<le> (of_char c :: nat) \<and> (of_char c :: nat) \<le> 57)"

definition digits_value :: "string \<Rightarrow> int" where
  "digits_value ds = foldl (\<lambda>n c. n * 10 + (int (of_char c) - 48)) 0 ds"

definition Atoi :: "string \<Rightarrow> error + int" where
  "Atoi s =
    (let neg = (s \<noteq> [] \<and> hd s = CHR ''-'');
         ds = (if s \<noteq> [] \<and> (hd s = CHR ''-'' \<or> hd s = CHR ''+'') then tl s else s)
     in if ds = [] \<or> \<not> list_all is_digit ds
        then Inl (Errorf ''strconv.Atoi: parsing %q: invalid syntax'' [s])
        else let n = (if neg then - digits_value ds else digits_value ds)
             in if n < - (2 ^ 63) \<or> 2 ^ 63 - 1 < n
                then Inl (Errorf ''strconv.Atoi: parsing %q: value out of range'' [s])
                else Inr n)"

section \<open>The operating system\<close>

text \<open>
  The state of the host that the code observes and changes, passed explicitly:
  the files by path (what \<open>os.ReadFile\<close> gives for a path that exists: the contents, or
  the error of an unreadable file), the error \<open>os.Remove\<close> meets on a path (if any), the
  process table as the results of \<open>os.FindProcess\<close> and of sending signal 0, the host
  agent sockets, and the log of the calls made so far, in order.
\<close>

text \<open>What the host agent answers to the Info query (\<open>hostagent/api.Info\<close>).\<close>

record api_Info =
  SSHLocalPort :: int

datatype call =
    ReadFile string
  | Remove string
  | FindProcess int
  | Signal int
  | NewHostAgentClient string
  | Info string

record world =
  files :: "string \<Rightarrow> (error + string) option"
  remove_error :: "string \<Rightarrow> error option"
  find_error :: "int \<Rightarrow> error option"
  signal_error :: "int \<Rightarrow> error option"
  client_error :: "string \<Rightarrow> error option"
  info_result :: "string \<Rightarrow> error + api_Info"
  calls :: "call list"

definition logged :: "call \<Rightarrow> world \<Rightarrow> world" where
  "logged c W = W\<lparr>calls := calls W @ [c]\<rparr>"

definition os_ReadFile :: "string \<Rightarrow> world \<Rightarrow> (error + string) \<times> world" where
  "os_ReadFile path W =
    ((case files W path of None \<Rightarrow> Inl (Sentinel ErrNotExist) | Some r \<Rightarrow> r),
     logged (ReadFile path) W)"

text \<open>\<open>os.Remove\<close> can fail (a directory that is not writable); the file then stays.\<close>

definition os_Remove :: "string \<Rightarrow> world \<Rightarrow> error option \<times> world" where
  "os_Remove path W =
    (case files W path of
       None \<Rightarrow> (Some (Sentinel ErrNotExist), logged (Remove path) W)
     | Some r \<Rightarrow>
        (case remove_error W path of
           Some e \<Rightarrow> (Some e, logged (Remove path) W)
         | None \<Rightarrow> (None, logged (Remove path) (W\<lparr>files := (files W)(path := None)\<rparr>))))"

definition os_FindProcess :: "int \<Rightarrow> world \<Rightarrow> error option \<times> world" where
  "os_FindProcess pid W = (find_error W pid, logged (FindProcess pid) W)"

text \<open>\<open>proc.Signal(syscall.Signal(0))\<close>: the probe; \<open>None\<close> when the signal was delivered.\<close>

definition Process_Signal0 :: "int \<Rightarrow> world \<Rightarrow> error option \<times> world" where
  "Process_Signal0 pid W = (signal_error W pid, logged (Signal pid) W)"

text \<open>
  \<open>hostagentclient.NewHostAgentClient\<close> on a socket path, and the \<open>Info\<close> query of the
  client it returns (the client is identified by its socket path). A query that does not
  answer within the deadline of the context is an error of the query.
\<close>

definition NewHostAgentClient_call :: "string \<Rightarrow> world \<Rightarrow> error option \<times> world" where
  "NewHostAgentClient_call haSock W = (client_error W haSock, logged (NewHostAgentClient haSock) W)"

definition Info_call :: "string \<Rightarrow> world \<Rightarrow> (error + api_Info) \<times> world" where
  "Info_call haSock W = (info_result W haSock, logged (Info haSock) W)"

section \<open>ReadPIDFile\<close>

text \<open>
  The Go function returns the pair \<open>(int, error)\<close>; the model returns that pair and the
  host state after the call.
\<close>

definition ReadPIDFile :: "string \<Rightarrow> world \<Rightarrow> (int \<times> error option) \<times> world" where
  "ReadPIDFile path W =
    (case os_ReadFile path W of
       (Inl err, W1) \<Rightarrow>
         if errors_Is err ErrNotExist then ((0, None), W1) else ((0, Some err), W1)
     | (Inr b, W1) \<Rightarrow>
        (case Atoi (TrimSpace b) of
           Inl err \<Rightarrow> ((0, Some err), W1)
         | Inr pid \<Rightarrow>
            (case os_FindProcess pid W1 of
               (Some err, W2) \<Rightarrow> ((0, Some err), W2)
             | (None, W2) \<Rightarrow>
                (case Process_Signal0 pid W2 of
                   (Some err, W3) \<Rightarrow>
                     if errors_Is err ErrProcessDone
                     then (case os_Remove path W3 of (_, W4) \<Rightarrow> ((0, None), W4))
                     else if \<not> errors_Is err ErrPermission then ((0, Some err), W3)
                     else ((pid, None), W3)
                 | (None, W3) \<Rightarrow> ((pid, None), W3)))))"

section \<open>The data model\<close>

type_synonym Status = string

definition StatusUnknown :: Status where "StatusUnknown = ''''"
definition StatusBroken :: Status where "StatusBroken = ''Broken''"
definition StatusStopped :: Status where "StatusStopped = ''Stopped''"
definition StatusRunning :: Status where "StatusRunning = ''Running''"

text \<open>
  The configuration document, \<open>limayaml.LimaYAML\<close>, is declared outside
  \<open>pkg/store/instance.go\<close>. The record has the fields that \<open>Inspect\<close> reads, with the
  types its uses of them show: a field it dereferences (\<open>*y.Arch\<close>) is a pointer, here an
  option, and \<open>CPUType\<close> is a map. The types of the elements of \<open>AdditionalDisks\<close> and
  \<open>Networks\<close> are only copied, never inspected.
\<close>

typedecl Disk
typedecl Network

record SSH =
  LocalPort :: "int option"

record LimaYAML =
  VMType :: "string option"
  Arch :: "string option"
  CPUType :: "string \<Rightarrow> string option"
  CPUs :: "int option"
  Memory :: "string option"
  Disk :: "string option"
  AdditionalDisks :: "Disk list"
  SSH :: SSH
  Message :: string
  Networks :: "Network list"

record Instance =
  Name :: string
  Status :: Status
  Dir :: string
  VMType :: string
  Arch :: string
  CPUType :: string
  CPUs :: int
  Memory :: int
  Disk :: int
  Message :: string
  AdditionalDisks :: "Disk list"
  Networks :: "Network list"
  SSHLocalPort :: int
  HostAgentPID :: int
  DriverPID :: int
  Errors :: "error list"
  Config :: "LimaYAML option"

record FormatData =
  Instance :: Instance
  HostOS :: string
  HostArch :: string
  LimaHome :: string
  IdentityFile :: string

text \<open>The zero value of the struct: what \<open>Instance{}\<close> leaves in every field it does not name.\<close>

definition Instance_zero :: Instance where
  "Instance_zero =
    \<lparr>Name = '''', Status = '''', Dir = '''', VMType = '''', Arch = '''', CPUType = '''',
     CPUs = 0, Memory = 0, Disk = 0, Message = '''', AdditionalDisks = [], Networks = [],
     SSHLocalPort = 0, HostAgentPID = 0, DriverPID = 0, Errors = [], Config = None\<rparr>"

section \<open>What the file imports\<close>

text \<open>
  The functions and constants that \<open>instance.go\<close> takes from other files of the package,
  from other packages of the repository and from libraries, as parameters: the directory
  of an instance and the loader of its configuration (\<open>InstanceDir\<close>,
  \<open>LoadYAMLByFilePath\<close>), \<open>units.RAMInBytes\<close> and \<open>units.BytesSize\<close>,
  \<open>filepath.Join\<close>, the file names of package \<open>filenames\<close>, the directories of package
  \<open>dirnames\<close>, \<open>runtime.GOOS\<close>, \<open>runtime.GOARCH\<close> and \<open>limayaml.NewArch\<close>, the home
  directory of \<open>user.Current\<close>, the layout done by \<open>tabwriter\<close> on \<open>Flush\<close>, and
  \<open>text/template\<close>. A loader that returns no error returns a configuration, not nil.
  A template is identified by its text; executing it gives the text it wrote and the error
  that stopped it, if any. \<open>message_Parse\<close> and \<open>message_Execute\<close>
  are the template of \<open>Inspect\<close> (no function map, executed on a \<open>FormatData\<close>),
  \<open>format_Parse\<close> and \<open>format_Execute\<close> the one of \<open>PrintInstances\<close> (with
  \<open>textutil.TemplateFuncMap\<close>, executed on an \<open>Instance\<close>).
\<close>

record env =
  InstanceDir :: "string \<Rightarrow> error + string"
  LoadYAMLByFilePath :: "string \<Rightarrow> error + LimaYAML"
  RAMInBytes :: "string \<Rightarrow> error + int"
  BytesSize :: "int \<Rightarrow> string"
  filepath_Join :: "string \<Rightarrow> string \<Rightarrow> string"
  filenames_LimaYAML :: string
  filenames_HostAgentPID :: string
  filenames_HostAgentSock :: string
  filenames_PIDFile :: "string \<Rightarrow> string"
  filenames_UserPrivateKey :: string
  LimaConfigDir :: "error + string"
  LimaDir :: "error + string"
  GOOS :: string
  GOARCH :: string
  NewArch :: "string \<Rightarrow> string"
  user_Current_HomeDir :: "error + string"
  tabwriter_Flush :: "string \<Rightarrow> string"
  message_Parse :: "string \<Rightarrow> error option"
  message_Execute :: "string \<Rightarrow> FormatData \<Rightarrow> string \<times> error option"
  format_Parse :: "string \<Rightarrow> error option"
  format_Execute :: "string \<Rightarrow> Instance \<Rightarrow> string \<times> error option"

section \<open>AddGlobalFields\<close>

definition AddGlobalFields :: "env \<Rightarrow> Instance \<Rightarrow> error + FormatData" where
  "AddGlobalFields E inst =
    (case LimaConfigDir E of
       Inl err \<Rightarrow> Inl err
     | Inr configDir \<Rightarrow>
        (case LimaDir E of
           Inl err \<Rightarrow> Inl err
         | Inr limaHome \<Rightarrow>
             Inr \<lparr>Instance = inst, HostOS = GOOS E, HostArch = NewArch E (GOARCH E),
                  LimaHome = limaHome,
                  IdentityFile = filepath_Join E configDir (filenames_UserPrivateKey E)\<rparr>))"

section \<open>Inspect\<close>

text \<open>
  \<open>Inspect\<close> is modelled in the order of its body, one definition for each step.
  Lines 87 to 103: the fields copied from the configuration. \<open>None\<close> is the panic of
  dereferencing a nil pointer. A key that the \<open>CPUType\<close> map lacks gives the empty
  string, and a size that \<open>units.RAMInBytes\<close> rejects leaves the field as it was.
\<close>

definition Inspect_config :: "env \<Rightarrow> LimaYAML \<Rightarrow> Instance \<Rightarrow> Instance option" where
  "Inspect_config E y inst =
    (case (LimaYAML.Arch y, LimaYAML.VMType y, LimaYAML.CPUs y, LimaYAML.Memory y,
           LimaYAML.Disk y, LocalPort (SSH y)) of
       (Some arch, Some vmType, Some cpus, Some mem, Some dsk, Some port) \<Rightarrow>
         (let inst = inst\<lparr>Config := Some y, Arch := arch, VMType := vmType,
                         CPUType := (case LimaYAML.CPUType y arch of None \<Rightarrow> '''' | Some c \<Rightarrow> c),
                         CPUs := cpus\<rparr>;
              inst = (case RAMInBytes E mem of Inr memory \<Rightarrow> inst\<lparr>Memory := memory\<rparr> | Inl err \<Rightarrow> inst);
              inst = (case RAMInBytes E dsk of Inr disk \<Rightarrow> inst\<lparr>Disk := disk\<rparr> | Inl err \<Rightarrow> inst)
          in Some (inst\<lparr>AdditionalDisks := LimaYAML.AdditionalDisks y,
                        Networks := LimaYAML.Networks y, SSHLocalPort := port\<rparr>))
     | _ \<Rightarrow> None)"

text \<open>Lines 105 to 109: the probe of the host agent's PID file.\<close>

definition Inspect_hostAgentPID :: "env \<Rightarrow> string \<Rightarrow> Instance \<Rightarrow> world \<Rightarrow> Instance \<times> world" where
  "Inspect_hostAgentPID E instDir inst W =
    (case ReadPIDFile (filepath_Join E instDir (filenames_HostAgentPID E)) W of
       ((pid, None), W') \<Rightarrow> (inst\<lparr>HostAgentPID := pid\<rparr>, W')
     | ((pid, Some err), W') \<Rightarrow>
         (inst\<lparr>HostAgentPID := pid, Status := StatusBroken, Errors := Errors inst @ [err]\<rparr>, W'))"

text \<open>Lines 111 to 128: the Info query on the host agent's socket.\<close>

definition Inspect_hostAgentInfo :: "env \<Rightarrow> string \<Rightarrow> Instance \<Rightarrow> world \<Rightarrow> Instance \<times> world" where
  "Inspect_hostAgentInfo E instDir inst W =
    (if HostAgentPID inst \<noteq> 0
     then (let haSock = filepath_Join E instDir (filenames_HostAgentSock E)
           in case NewHostAgentClient_call haSock W of
                (Some err, W1) \<Rightarrow>
                  (inst\<lparr>Status := StatusBroken,
                        Errors := Errors inst @ [Errorf_w ''failed to connect to %q: %w'' [haSock] err]\<rparr>,
                   W1)
              | (None, W1) \<Rightarrow>
                 (case Info_call haSock W1 of
                    (Inl err, W2) \<Rightarrow>
                      (inst\<lparr>Status := StatusBroken,
                            Errors := Errors inst @ [Errorf_w ''failed to get Info from %q: %w'' [haSock] err]\<rparr>,
                       W2)
                  | (Inr info, W2) \<Rightarrow> (inst\<lparr>SSHLocalPort := api_Info.SSHLocalPort info\<rparr>, W2)))
     else (inst, W))"

text \<open>
  Lines 130 to 134: the probe of the driver's PID file, whose name comes from
  \<open>*y.VMType\<close> (\<open>None\<close>: the nil pointer).
\<close>

definition Inspect_driverPID ::
  "env \<Rightarrow> string \<Rightarrow> LimaYAML \<Rightarrow> Instance \<Rightarrow> world \<Rightarrow> (Instance \<times> world) option" where
  "Inspect_driverPID E instDir y inst W =
    (case LimaYAML.VMType y of
       None \<Rightarrow> None
     | Some vmType \<Rightarrow>
        (case ReadPIDFile (filepath_Join E instDir (filenames_PIDFile E vmType)) W of
           ((pid, None), W') \<Rightarrow> Some (inst\<lparr>DriverPID := pid\<rparr>, W')
         | ((pid, Some err), W') \<Rightarrow>
             Some (inst\<lparr>DriverPID := pid, Status := StatusBroken, Errors := Errors inst @ [err]\<rparr>, W')))"

text \<open>Lines 136 to 148: the status from the two process ids.\<close>

definition Inspect_status :: "Instance \<Rightarrow> Instance" where
  "Inspect_status inst =
    (if Status inst = StatusUnknown
     then (if HostAgentPID inst > 0 \<and> DriverPID inst > 0 then inst\<lparr>Status := StatusRunning\<rparr>
           else if HostAgentPID inst = 0 \<and> DriverPID inst = 0 then inst\<lparr>Status := StatusStopped\<rparr>
           else if HostAgentPID inst > 0 \<and> DriverPID inst = 0
           then inst\<lparr>Errors := Errors inst @ [errors_New ''host agent is running but driver is not''],
                     Status := StatusBroken\<rparr>
           else inst\<lparr>Errors := Errors inst @
                        [Errorf ''%s driver is running but host agent is not'' [VMType inst]],
                     Status := StatusBroken\<rparr>)
     else inst)"

text \<open>Lines 150 to 169: the message of the configuration, rendered as a template.\<close>

definition Inspect_message :: "env \<Rightarrow> LimaYAML \<Rightarrow> Instance \<Rightarrow> Instance" where
  "Inspect_message E y inst =
    (case message_Parse E (LimaYAML.Message y) of
       Some err \<Rightarrow>
         inst\<lparr>Errors := Errors inst @
                 [Errorf_w ''message %q is not a valid template: %w'' [LimaYAML.Message y] err],
              Status := StatusBroken\<rparr>
     | None \<Rightarrow>
        (case AddGlobalFields E inst of
           Inl err \<Rightarrow>
             inst\<lparr>Errors := Errors inst @
                     [Errorf_w ''cannot add global fields to instance data: %w'' [] err],
                  Status := StatusBroken\<rparr>
         | Inr data \<Rightarrow>
            (case message_Execute E (LimaYAML.Message y) data of
               (message, Some err) \<Rightarrow>
                 inst\<lparr>Errors := Errors inst @
                         [Errorf_w ''cannot execute template %q: %w'' [LimaYAML.Message y] err],
                      Status := StatusBroken\<rparr>
             | (message, None) \<Rightarrow> inst\<lparr>Message := message\<rparr>)))"

text \<open>
  What a call of \<open>Inspect\<close> does: it panics, or it returns the pair
  \<open>(*Instance, error)\<close>, where \<open>None\<close> is \<open>nil\<close>.
\<close>

datatype Inspect_result = Panic | Return "Instance option" "error option"

definition Inspect :: "env \<Rightarrow> string \<Rightarrow> world \<Rightarrow> Inspect_result \<times> world" where
  "Inspect E instName W =
    (let inst = Instance_zero\<lparr>Name := instName, Status := StatusUnknown\<rparr>
     in case InstanceDir E instName of
          Inl err \<Rightarrow> (Return None (Some err), W)
        | Inr instDir \<Rightarrow>
           (let inst = inst\<lparr>Dir := instDir\<rparr>;
                yamlPath = filepath_Join E instDir (filenames_LimaYAML E)
            in case LoadYAMLByFilePath E yamlPath of
                 Inl err \<Rightarrow>
                   if errors_Is err ErrNotExist then (Return None (Some err), W)
                   else (Return (Some (inst\<lparr>Errors := Errors inst @ [err]\<rparr>)) None, W)
               | Inr y \<Rightarrow>
                  (case Inspect_config E y inst of
                     None \<Rightarrow> (Panic, W)
                   | Some inst1 \<Rightarrow>
                      (case Inspect_hostAgentPID E instDir inst1 W of
                         (inst2, W2) \<Rightarrow>
                          (case Inspect_hostAgentInfo E instDir inst2 W2 of
                             (inst3, W3) \<Rightarrow>
                              (case Inspect_driverPID E instDir y inst3 W3 of
                                 None \<Rightarrow> (Panic, W3)
                               | Some (inst4, W4) \<Rightarrow>
                                   (Return (Some (Inspect_message E y (Inspect_status inst4))) None,
                                    W4)))))))"

text \<open>
  Two views of the body, for stating properties: the Instance as it is after line 77
  (the name, the status \<open>StatusUnknown\<close> and the directory set, every other field zero),
  and the Instance and the host after lines 87 to 134, that is after the configuration
  has been copied and both PID files and the socket have been probed (\<open>None\<close>: a panic).
\<close>

definition Inspect_init :: "string \<Rightarrow> string \<Rightarrow> Instance" where
  "Inspect_init instName instDir = Instance_zero\<lparr>Name := instName, Status := StatusUnknown, Dir := instDir\<rparr>"

definition Inspect_probes ::
  "env \<Rightarrow> string \<Rightarrow> string \<Rightarrow> LimaYAML \<Rightarrow> world \<Rightarrow> (Instance \<times> world) option" where
  "Inspect_probes E instName instDir y W =
    (case Inspect_config E y (Inspect_init instName instDir) of
       None \<Rightarrow> None
     | Some inst1 \<Rightarrow>
        (case Inspect_hostAgentPID E instDir inst1 W of
           (inst2, W2) \<Rightarrow>
            (case Inspect_hostAgentInfo E instDir inst2 W2 of
               (inst3, W3) \<Rightarrow> Inspect_driverPID E instDir y inst3 W3)))"

section \<open>PrintInstances\<close>

text \<open>The verb \<open>%d\<close> of \<open>fmt\<close> on an \<open>int\<close>: the decimal digits, with a minus sign.\<close>

function show_nat :: "nat \<Rightarrow> string" where
  "show_nat n =
    (if n < 10 then [char_of (48 + n)] else show_nat (n div 10) @ [char_of (48 + n mod 10)])"
  by pat_completeness auto
termination
  by (relation "measure (\<lambda>n. n)") auto

definition show_int :: "int \<Rightarrow> string" where
  "show_int i = (if i < 0 then CHR ''-'' # show_nat (nat (- i)) else show_nat (nat i))"





section \<open>A concrete host\<close>

text \<open>
  One host on which the definitions can be run: the instance \<open>default\<close> has a valid
  configuration, the instance \<open>broken\<close> a malformed one, and no other instance has any.
  In \<open>example_world\<close> there is no PID file and no process; in \<open>running_world\<close> the host
  agent (4242) and the driver (4250) of \<open>default\<close> both run.
\<close>

definition example_config :: LimaYAML where
  "example_config =
    \<lparr>LimaYAML.VMType = Some ''qemu'', LimaYAML.Arch = Some ''x86_64'',
     LimaYAML.CPUType = (\<lambda>a. if a = ''x86_64'' then Some ''Haswell-v4'' else None),
     LimaYAML.CPUs = Some 4, LimaYAML.Memory = Some ''4GiB'', LimaYAML.Disk = Some ''100GiB'',
     LimaYAML.AdditionalDisks = [], SSH = \<lparr>LocalPort = Some 60022\<rparr>,
     LimaYAML.Message = ''ready'', LimaYAML.Networks = []\<rparr>"

definition example_env :: env where
  "example_env =
    \<lparr>InstanceDir =
       (\<lambda>name. if name = '''' then Inl (errors_New ''identifier must not be empty'')
               else Inr (''/home/u/.lima/'' @ name)),
     LoadYAMLByFilePath =
       (\<lambda>p. if p = ''/home/u/.lima/default/lima.yaml'' then Inr example_config
            else if p = ''/home/u/.lima/broken/lima.yaml''
            then Inl (errors_New ''yaml: line 3: mapping values are not allowed in this context'')
            else Inl (Errorf_w ''open %s: %w'' [p] (Sentinel ErrNotExist))),
     RAMInBytes =
       (\<lambda>s. if s = ''4GiB'' then Inr 4294967296
            else if s = ''100GiB'' then Inr 107374182400
            else Inl (Errorf ''invalid size: %s'' [s])),
     BytesSize = (\<lambda>n. show_int n @ ''B''),
     filepath_Join = (\<lambda>a b. a @ ''/'' @ b),
     filenames_LimaYAML = ''lima.yaml'',
     filenames_HostAgentPID = ''ha.pid'',
     filenames_HostAgentSock = ''ha.sock'',
     filenames_PIDFile = (\<lambda>name. name @ ''.pid''),
     filenames_UserPrivateKey = ''user'',
     LimaConfigDir = Inr ''/home/u/.lima/_config'',
     LimaDir = Inr ''/home/u/.lima'',
     GOOS = ''linux'',
     GOARCH = ''amd64'',
     NewArch = (\<lambda>a. if a = ''amd64'' then ''x86_64'' else a),
     user_Current_HomeDir = Inr ''/home/u'',
     tabwriter_Flush = (\<lambda>t. t),
     message_Parse = (\<lambda>t. if t = ''{{'' then Some (errors_New ''unclosed action'') else None),
     message_Execute = (\<lambda>t d. (t, None)),
     format_Parse = (\<lambda>t. if t = ''{{'' then Some (errors_New ''unclosed action'') else None),
     format_Execute =
       (\<lambda>t i. if Name i = '''' then (''<'', Some (errors_New ''error calling index''))
              else (Name i, None))\<rparr>"

definition example_world :: world where
  "example_world =
    \<lparr>files = (\<lambda>p. None),
     remove_error = (\<lambda>p. None),
     find_error = (\<lambda>pid. None),
     signal_error = (\<lambda>pid. Some (Sentinel ErrProcessDone)),
     client_error = (\<lambda>sock. None),
     info_result = (\<lambda>sock. Inr \<lparr>api_Info.SSHLocalPort = 50022\<rparr>),
     calls = []\<rparr>"

definition running_world :: world where
  "running_world =
    example_world
      \<lparr>files :=
         (\<lambda>p. if p = ''/home/u/.lima/default/ha.pid'' then Some (Inr (''4242'' @ [CHR 0x0A]))
              else if p = ''/home/u/.lima/default/qemu.pid'' then Some (Inr (''4250'' @ [CHR 0x0A]))
              else None),
       signal_error :=
         (\<lambda>pid. if pid = 4242 \<or> pid = 4250 then None else Some (Sentinel ErrProcessDone))\<rparr>"

text \<open>
  Three more hosts: in \<open>foreign_world\<close> a PID file names process 812, which runs as another
  user (the probe is refused); in \<open>stale_world\<close> the PID file of the host agent names
  process 4242, which has exited; \<open>locked_world\<close> is the same, in a directory where
  \<open>os.Remove\<close> is refused.
\<close>

definition foreign_world :: world where
  "foreign_world =
    example_world
      \<lparr>files := (\<lambda>p. if p = ''/run/usernet.pid'' then Some (Inr ('' 812'' @ [CHR 0x0A])) else None),
       signal_error := (\<lambda>pid. if pid = 812 then Some (Sentinel ErrPermission)
                              else Some (Sentinel ErrProcessDone))\<rparr>"

definition stale_world :: world where
  "stale_world =
    example_world
      \<lparr>files := (\<lambda>p. if p = ''/home/u/.lima/default/ha.pid'' then Some (Inr ''4242'') else None)\<rparr>"

definition locked_world :: world where
  "locked_world = stale_world\<lparr>remove_error := (\<lambda>p. Some (Sentinel ErrPermission))\<rparr>"

text \<open>
  The Instance of \<open>default\<close> once its configuration has been copied, and more hosts:
  only the host agent runs, only the driver runs, both PID files hold text that is not a
  number, the host agent runs but does not answer the Info query, both PID files hold a
  negative number whose probe is delivered (signal 0 to a negative id goes to a process
  group), only the host agent's PID file does; and two more environments: one in which
  the memory size of the configuration does not parse, one in which executing the message
  template fails.
\<close>

definition configured_instance :: Instance where
  "configured_instance =
    \<lparr>Name = ''default'', Status = StatusUnknown, Dir = ''/home/u/.lima/default'', VMType = ''qemu'',
     Arch = ''x86_64'', CPUType = ''Haswell-v4'', CPUs = 4, Memory = 4294967296,
     Disk = 107374182400, Message = '''', AdditionalDisks = [], Networks = [],
     SSHLocalPort = 60022, HostAgentPID = 0, DriverPID = 0, Errors = [],
     Config = Some example_config\<rparr>"



definition garbled_world :: world where
  "garbled_world =
    example_world
      \<lparr>files :=
         (\<lambda>p. if p = ''/home/u/.lima/default/ha.pid'' then Some (Inr ''abc'')
              else if p = ''/home/u/.lima/default/qemu.pid'' then Some (Inr ''4250x'')
              else None)\<rparr>"

definition garbled_instance :: Instance where
  "garbled_instance =
    configured_instance
      \<lparr>Status := StatusBroken,
       Errors := [Errorf ''strconv.Atoi: parsing %q: invalid syntax'' [''abc'']]\<rparr>"

definition deaf_world :: world where
  "deaf_world = running_world\<lparr>info_result := (\<lambda>sock. Inl (errors_New ''context deadline exceeded''))\<rparr>"

definition unsized_env :: env where
  "unsized_env =
    example_env\<lparr>LoadYAMLByFilePath := (\<lambda>p. Inr (example_config\<lparr>LimaYAML.Memory := Some ''lots''\<rparr>))\<rparr>"



definition mute_env :: env where
  "mute_env =
    example_env
      \<lparr>message_Execute :=
         (\<lambda>t d. (''re'', Some (errors_New ''template: format:1:3: executing at <.Nope>'')))\<rparr>"

section \<open>Properties of ReadPIDFile\<close>

declare trim_runes.simps [simp del]
declare show_nat.simps [simp del]

lemmas os_defs = os_ReadFile_def os_Remove_def os_FindProcess_def Process_Signal0_def logged_def

lemma Is_Permission_not_Done: "errors_Is err ErrPermission \<Longrightarrow> \<not> errors_Is err ErrProcessDone"
  by (induction err) auto

lemma ReadPIDFile_absent:
  "files W path = None \<Longrightarrow> ReadPIDFile path W = ((0, None), logged (ReadFile path) W)"
  by (simp add: ReadPIDFile_def os_ReadFile_def)

lemma ReadPIDFile_stale_run:
  assumes "files W path = Some (Inr b)" and "Atoi (TrimSpace b) = Inr pid"
    and "find_error W pid = None" and "signal_error W pid = Some err"
    and "errors_Is err ErrProcessDone"
  shows "ReadPIDFile path W =
    ((0, None),
     (if remove_error W path = None then W\<lparr>files := (files W)(path := None)\<rparr> else W)
       \<lparr>calls := calls W @ [ReadFile path, FindProcess pid, Signal pid, Remove path]\<rparr>)"
  using assms by (auto simp add: ReadPIDFile_def os_defs)

lemma ReadPIDFile_frame:
  "(snd (ReadPIDFile p V))\<lparr>files := files V, calls := calls V\<rparr> = V"
  by (simp add: ReadPIDFile_def os_defs split: sum.splits option.splits)

lemma ReadPIDFile_files:
  "files (snd (ReadPIDFile p V)) = files V \<or>
   files (snd (ReadPIDFile p V)) = (files V)(p := None) \<and>
   fst (ReadPIDFile p V) = (0, None) \<and> Remove p \<in> set (calls (snd (ReadPIDFile p V)))"
  by (simp add: ReadPIDFile_def os_defs split: sum.splits option.splits)

text \<open>
  C4 (as amended). For a PID file whose process has exited (the file is read, its
  contents parse to \<open>pid\<close>, and the probe of \<open>pid\<close> reports that the process is done),
  \<open>ReadPIDFile\<close> returns 0 with no error and calls \<open>os.Remove\<close> on the path, ignoring what
  the call returns: the path is absent afterwards when the removal succeeds and the file
  stays when it is refused. Either way a second probe of the same path, on the host as the
  first one left it, again returns 0 with no error. On every host and path, \<open>ReadPIDFile\<close>
  changes nothing of the host but the log of calls and, through that removal alone, the
  file at the path.
\<close>

theorem ReadPIDFile_stale:
  assumes "files W path = Some (Inr b)" and "Atoi (TrimSpace b) = Inr pid"
    and "find_error W pid = None" and "signal_error W pid = Some err"
    and "errors_Is err ErrProcessDone"
  shows "fst (ReadPIDFile path W) = (0, None) \<and>
    calls (snd (ReadPIDFile path W)) =
      calls W @ [ReadFile path, FindProcess pid, Signal pid, Remove path] \<and>
    files (snd (ReadPIDFile path W)) =
      (if remove_error W path = None then (files W)(path := None) else files W) \<and>
    fst (ReadPIDFile path (snd (ReadPIDFile path W))) = (0, None) \<and>
    (\<forall>p V. (snd (ReadPIDFile p V))\<lparr>files := files V, calls := calls V\<rparr> = V \<and>
       (files (snd (ReadPIDFile p V)) = files V \<or>
        files (snd (ReadPIDFile p V)) = (files V)(p := None) \<and>
        fst (ReadPIDFile p V) = (0, None) \<and> Remove p \<in> set (calls (snd (ReadPIDFile p V)))))"
proof -
  let ?W' = "snd (ReadPIDFile path W)"
  note run = ReadPIDFile_stale_run [OF assms]
  have again: "fst (ReadPIDFile path ?W') = (0, None)"
  proof (cases "remove_error W path = None")
    case True
    then have "files ?W' path = None" by (simp add: run)
    then show ?thesis by (simp add: ReadPIDFile_absent)
  next
    case False
    then have "files ?W' path = Some (Inr b)" "find_error ?W' pid = None"
      "signal_error ?W' pid = Some err"
      using assms by (simp_all add: run)
    from ReadPIDFile_stale_run [OF this(1) assms(2) this(2) this(3) assms(5)]
    show ?thesis by simp
  qed
  show ?thesis
    using again ReadPIDFile_frame ReadPIDFile_files by (simp add: run)
qed

theorem ReadPIDFile_stale_witness:
  "files stale_world ''/home/u/.lima/default/ha.pid'' = Some (Inr ''4242'') \<and>
   Atoi (TrimSpace ''4242'') = Inr 4242 \<and>
   find_error stale_world 4242 = None \<and>
   signal_error stale_world 4242 = Some (Sentinel ErrProcessDone) \<and>
   errors_Is (Sentinel ErrProcessDone) ErrProcessDone \<and>
   fst (ReadPIDFile ''/home/u/.lima/default/ha.pid'' stale_world) = (0, None) \<and>
   files (snd (ReadPIDFile ''/home/u/.lima/default/ha.pid'' stale_world))
     ''/home/u/.lima/default/ha.pid'' = None \<and>
   fst (ReadPIDFile ''/home/u/.lima/default/ha.pid''
     (snd (ReadPIDFile ''/home/u/.lima/default/ha.pid'' stale_world))) = (0, None)"
proof -
  have h1: "files stale_world ''/home/u/.lima/default/ha.pid'' = Some (Inr ''4242'')"
    by (simp add: stale_world_def example_world_def)
  have h2: "Atoi (TrimSpace ''4242'') = Inr 4242" by code_simp
  have h3: "find_error stale_world 4242 = None"
    by (simp add: stale_world_def example_world_def)
  have h4: "signal_error stale_world 4242 = Some (Sentinel ErrProcessDone)"
    by (simp add: stale_world_def example_world_def)
  have h5: "errors_Is (Sentinel ErrProcessDone) ErrProcessDone" by simp
  have h6: "remove_error stale_world ''/home/u/.lima/default/ha.pid'' = None"
    by (simp add: stale_world_def example_world_def)
  from ReadPIDFile_stale [OF h1 h2 h3 h4 h5] h1 h2 h3 h4 h5 h6 show ?thesis by simp
qed

text \<open>
  C4 as stated fails where the removal is refused: the probe returns 0 with no error, and
  the stale file is still there.
\<close>

theorem ReadPIDFile_stale_not_deleted:
  "fst (ReadPIDFile ''/home/u/.lima/default/ha.pid'' locked_world) = (0, None) \<and>
   files (snd (ReadPIDFile ''/home/u/.lima/default/ha.pid'' locked_world))
     ''/home/u/.lima/default/ha.pid'' = Some (Inr ''4242'') \<and>
   files (snd (ReadPIDFile ''/home/u/.lima/default/ha.pid'' locked_world))
     ''/home/u/.lima/default/ha.pid'' \<noteq> None"
  by code_simp

text \<open>
  C5. For a PID file that names a process (a nonzero id) which the probe may not signal,
  the error being a permission error, \<open>ReadPIDFile\<close> returns that process id with no error,
  and not 0.
\<close>

theorem ReadPIDFile_permission:
  assumes "files W path = Some (Inr b)" and "Atoi (TrimSpace b) = Inr pid" and "pid \<noteq> 0"
    and "find_error W pid = None" and "signal_error W pid = Some err"
    and "errors_Is err ErrPermission"
  shows "fst (ReadPIDFile path W) = (pid, None) \<and> fst (fst (ReadPIDFile path W)) \<noteq> 0"
  using assms Is_Permission_not_Done [OF assms(6)]
  by (simp add: ReadPIDFile_def os_defs)

theorem ReadPIDFile_permission_witness:
  "files foreign_world ''/run/usernet.pid'' = Some (Inr ('' 812'' @ [CHR 0x0A])) \<and>
   Atoi (TrimSpace ('' 812'' @ [CHR 0x0A])) = Inr 812 \<and>
   find_error foreign_world 812 = None \<and>
   signal_error foreign_world 812 = Some (Sentinel ErrPermission) \<and>
   errors_Is (Sentinel ErrPermission) ErrPermission \<and>
   fst (ReadPIDFile ''/run/usernet.pid'' foreign_world) = (812, None)"
proof -
  have h1: "files foreign_world ''/run/usernet.pid'' = Some (Inr ('' 812'' @ [CHR 0x0A]))"
    by (simp add: foreign_world_def example_world_def)
  have h2: "Atoi (TrimSpace ('' 812'' @ [CHR 0x0A])) = Inr 812" by code_simp
  have h3: "(812::int) \<noteq> 0" by simp
  have h4: "find_error foreign_world 812 = None"
    by (simp add: foreign_world_def example_world_def)
  have h5: "signal_error foreign_world 812 = Some (Sentinel ErrPermission)"
    by (simp add: foreign_world_def example_world_def)
  have h6: "errors_Is (Sentinel ErrPermission) ErrPermission" by simp
  from ReadPIDFile_permission [OF h1 h2 h3 h4 h5 h6] h1 h2 h4 h5 h6 show ?thesis by simp
qed

section \<open>Properties of Inspect\<close>

lemmas example_defs = example_env_def example_world_def running_world_def example_config_def
  Instance_zero_def Inspect_init_def StatusUnknown_def StatusBroken_def StatusRunning_def
  StatusStopped_def

lemmas Inspect_defs = Inspect_probes_def Inspect_config_def Inspect_hostAgentPID_def
  Inspect_hostAgentInfo_def Inspect_driverPID_def Inspect_status_def Inspect_message_def
  AddGlobalFields_def ReadPIDFile_def os_defs NewHostAgentClient_call_def Info_call_def Let_def

text \<open>What each step does to the Instance, and how the steps make up \<open>Inspect\<close>.\<close>

lemma StatusUnknown_not_Broken: "StatusUnknown \<noteq> StatusBroken"
  by (simp add: StatusUnknown_def StatusBroken_def)

lemma Inspect_config_eq:
  assumes "Inspect_config E y inst = Some inst'"
  shows "\<exists>arch vmType cpus mem dsk port.
    LimaYAML.Arch y = Some arch \<and> LimaYAML.VMType y = Some vmType \<and> LimaYAML.CPUs y = Some cpus \<and>
    LimaYAML.Memory y = Some mem \<and> LimaYAML.Disk y = Some dsk \<and> LocalPort (SSH y) = Some port \<and>
    inst' = inst\<lparr>Config := Some y, Arch := arch, VMType := vmType,
                  CPUType := (case LimaYAML.CPUType y arch of None \<Rightarrow> '''' | Some c \<Rightarrow> c),
                  CPUs := cpus,
                  Memory := (case RAMInBytes E mem of Inr memory \<Rightarrow> memory | Inl err \<Rightarrow> Memory inst),
                  Disk := (case RAMInBytes E dsk of Inr disk \<Rightarrow> disk | Inl err \<Rightarrow> Disk inst),
                  AdditionalDisks := LimaYAML.AdditionalDisks y,
                  Networks := LimaYAML.Networks y, SSHLocalPort := port\<rparr>"
  using assms
  by (auto simp add: Inspect_config_def Let_def split: option.splits sum.splits)

lemma Inspect_hostAgentPID_eq:
  "Inspect_hostAgentPID E instDir inst W =
    (inst\<lparr>HostAgentPID := fst (fst (ReadPIDFile (filepath_Join E instDir (filenames_HostAgentPID E)) W)),
          Status := (case snd (fst (ReadPIDFile (filepath_Join E instDir (filenames_HostAgentPID E)) W)) of
                       None \<Rightarrow> Status inst | Some err \<Rightarrow> StatusBroken),
          Errors := Errors inst @
                    (case snd (fst (ReadPIDFile (filepath_Join E instDir (filenames_HostAgentPID E)) W)) of
                       None \<Rightarrow> [] | Some err \<Rightarrow> [err])\<rparr>,
     snd (ReadPIDFile (filepath_Join E instDir (filenames_HostAgentPID E)) W))"
  by (simp add: Inspect_hostAgentPID_def split: prod.splits option.splits)

lemma Inspect_driverPID_eq:
  assumes "LimaYAML.VMType y = Some vmType"
  shows "Inspect_driverPID E instDir y inst W =
    Some (inst\<lparr>DriverPID := fst (fst (ReadPIDFile (filepath_Join E instDir (filenames_PIDFile E vmType)) W)),
          Status := (case snd (fst (ReadPIDFile (filepath_Join E instDir (filenames_PIDFile E vmType)) W)) of
                       None \<Rightarrow> Status inst | Some err \<Rightarrow> StatusBroken),
          Errors := Errors inst @
                    (case snd (fst (ReadPIDFile (filepath_Join E instDir (filenames_PIDFile E vmType)) W)) of
                       None \<Rightarrow> [] | Some err \<Rightarrow> [err])\<rparr>,
     snd (ReadPIDFile (filepath_Join E instDir (filenames_PIDFile E vmType)) W))"
  using assms by (simp add: Inspect_driverPID_def split: prod.splits option.splits)

lemma Inspect_hostAgentInfo_eq:
  "Inspect_hostAgentInfo E instDir inst W =
    (if HostAgentPID inst = 0 then (inst, W)
     else (case client_error W (filepath_Join E instDir (filenames_HostAgentSock E)) of
             Some err \<Rightarrow>
               (inst\<lparr>Status := StatusBroken,
                     Errors := Errors inst @
                       [Errorf_w ''failed to connect to %q: %w''
                          [filepath_Join E instDir (filenames_HostAgentSock E)] err]\<rparr>,
                W\<lparr>calls := calls W @ [NewHostAgentClient (filepath_Join E instDir (filenames_HostAgentSock E))]\<rparr>)
           | None \<Rightarrow>
              (case info_result W (filepath_Join E instDir (filenames_HostAgentSock E)) of
                 Inl err \<Rightarrow>
                   (inst\<lparr>Status := StatusBroken,
                         Errors := Errors inst @
                           [Errorf_w ''failed to get Info from %q: %w''
                              [filepath_Join E instDir (filenames_HostAgentSock E)] err]\<rparr>,
                    W\<lparr>calls := calls W @
                        [NewHostAgentClient (filepath_Join E instDir (filenames_HostAgentSock E)),
                         Info (filepath_Join E instDir (filenames_HostAgentSock E))]\<rparr>)
               | Inr info \<Rightarrow>
                   (inst\<lparr>SSHLocalPort := api_Info.SSHLocalPort info\<rparr>,
                    W\<lparr>calls := calls W @
                        [NewHostAgentClient (filepath_Join E instDir (filenames_HostAgentSock E)),
                         Info (filepath_Join E instDir (filenames_HostAgentSock E))]\<rparr>))))"
  by (simp add: Inspect_hostAgentInfo_def NewHostAgentClient_call_def Info_call_def logged_def Let_def
      split: option.splits sum.splits)

lemma Inspect_steps:
  assumes "InstanceDir E instName = Inr instDir"
    and "LoadYAMLByFilePath E (filepath_Join E instDir (filenames_LimaYAML E)) = Inr y"
    and "Inspect_config E y (Inspect_init instName instDir) = Some inst1"
    and "Inspect_hostAgentPID E instDir inst1 W = (inst2, W2)"
    and "Inspect_hostAgentInfo E instDir inst2 W2 = (inst3, W3)"
    and "Inspect_driverPID E instDir y inst3 W3 = Some (inst4, W4)"
  shows "Inspect E instName W = (Return (Some (Inspect_message E y (Inspect_status inst4))) None, W4)"
  using assms by (simp add: Inspect_def Inspect_init_def)

lemma Inspect_Return_steps:
  assumes "InstanceDir E instName = Inr instDir"
    and "LoadYAMLByFilePath E (filepath_Join E instDir (filenames_LimaYAML E)) = Inr y"
    and "Inspect E instName W = (Return (Some inst) err, W')"
  shows "\<exists>inst1 inst2 W2 inst3 W3 inst4.
    Inspect_config E y (Inspect_init instName instDir) = Some inst1 \<and>
    Inspect_hostAgentPID E instDir inst1 W = (inst2, W2) \<and>
    Inspect_hostAgentInfo E instDir inst2 W2 = (inst3, W3) \<and>
    Inspect_driverPID E instDir y inst3 W3 = Some (inst4, W') \<and>
    inst = Inspect_message E y (Inspect_status inst4) \<and> err = None"
  using assms
  by (auto simp add: Inspect_def Inspect_init_def split: option.splits prod.splits)


lemma Inspect_status_frame:
  "Name (Inspect_status inst) = Name inst \<and> Dir (Inspect_status inst) = Dir inst \<and>
   Memory (Inspect_status inst) = Memory inst \<and> Disk (Inspect_status inst) = Disk inst \<and>
   SSHLocalPort (Inspect_status inst) = SSHLocalPort inst \<and>
   HostAgentPID (Inspect_status inst) = HostAgentPID inst \<and>
   DriverPID (Inspect_status inst) = DriverPID inst \<and>
   Message (Inspect_status inst) = Message inst"
  by (simp add: Inspect_status_def)

lemma Inspect_message_frame:
  "Name (Inspect_message E y inst) = Name inst \<and> Dir (Inspect_message E y inst) = Dir inst \<and>
   Memory (Inspect_message E y inst) = Memory inst \<and> Disk (Inspect_message E y inst) = Disk inst \<and>
   SSHLocalPort (Inspect_message E y inst) = SSHLocalPort inst \<and>
   HostAgentPID (Inspect_message E y inst) = HostAgentPID inst \<and>
   DriverPID (Inspect_message E y inst) = DriverPID inst"
  by (simp add: Inspect_message_def split: option.splits sum.splits prod.splits)

lemma Inspect_hostAgentInfo_frame:
  assumes "Inspect_hostAgentInfo E instDir inst W = (inst', W')"
  shows "Name inst' = Name inst \<and> Dir inst' = Dir inst \<and> Memory inst' = Memory inst \<and>
    Disk inst' = Disk inst \<and> HostAgentPID inst' = HostAgentPID inst \<and> DriverPID inst' = DriverPID inst"
  using assms
  by (auto simp add: Inspect_hostAgentInfo_eq split: if_splits option.splits sum.splits)



lemma ReadPIDFile_calls:
  "\<exists>cs. calls (snd (ReadPIDFile p W)) = calls W @ cs \<and>
     (\<forall>s. NewHostAgentClient s \<notin> set cs \<and> Info s \<notin> set cs)"
  by (simp add: ReadPIDFile_def os_defs split: sum.splits option.splits)

lemma ReadPIDFile_sockets:
  "client_error (snd (ReadPIDFile p W)) = client_error W \<and>
   info_result (snd (ReadPIDFile p W)) = info_result W"
  by (simp add: ReadPIDFile_def os_defs split: sum.splits option.splits)

lemma Inspect_status_Broken: "Status inst = StatusBroken \<Longrightarrow> Inspect_status inst = inst"
  using StatusUnknown_not_Broken by (simp add: Inspect_status_def)

lemma Inspect_status_Errors: "\<exists>es. Errors (Inspect_status inst) = Errors inst @ es"
  by (simp add: Inspect_status_def)

lemma Inspect_message_Broken:
  "Status inst = StatusBroken \<Longrightarrow> Status (Inspect_message E y inst) = StatusBroken"
  by (simp add: Inspect_message_def split: option.splits sum.splits prod.splits)

lemma Inspect_message_Errors: "\<exists>es. Errors (Inspect_message E y inst) = Errors inst @ es"
  by (simp add: Inspect_message_def split: option.splits sum.splits prod.splits)

lemma Inspect_message_ok:
  assumes "message_Parse E (LimaYAML.Message y) = None" and "AddGlobalFields E inst = Inr data"
    and "message_Execute E (LimaYAML.Message y) data = (m, None)"
  shows "Inspect_message E y inst = inst\<lparr>Message := m\<rparr>"
  using assms by (simp add: Inspect_message_def)

lemma Inspect_message_parse_error:
  assumes "message_Parse E (LimaYAML.Message y) = Some e"
  shows "Inspect_message E y inst =
    inst\<lparr>Errors := Errors inst @
            [Errorf_w ''message %q is not a valid template: %w'' [LimaYAML.Message y] e],
         Status := StatusBroken\<rparr>"
  using assms by (simp add: Inspect_message_def)

lemma Inspect_message_fields_error:
  assumes "message_Parse E (LimaYAML.Message y) = None" and "AddGlobalFields E inst = Inl e"
  shows "Inspect_message E y inst =
    inst\<lparr>Errors := Errors inst @
            [Errorf_w ''cannot add global fields to instance data: %w'' [] e],
         Status := StatusBroken\<rparr>"
  using assms by (simp add: Inspect_message_def)

lemma Inspect_message_execute_error:
  assumes "message_Parse E (LimaYAML.Message y) = None" and "AddGlobalFields E inst = Inr data"
    and "message_Execute E (LimaYAML.Message y) data = (m, Some e)"
  shows "Inspect_message E y inst =
    inst\<lparr>Errors := Errors inst @
            [Errorf_w ''cannot execute template %q: %w'' [LimaYAML.Message y] e],
         Status := StatusBroken\<rparr>"
  using assms by (simp add: Inspect_message_def)

lemma Inspect_driverPID_frame:
  assumes "Inspect_driverPID E instDir y inst W = Some (inst', W')"
  shows "Name inst' = Name inst \<and> Dir inst' = Dir inst \<and> Memory inst' = Memory inst \<and>
    Disk inst' = Disk inst \<and> HostAgentPID inst' = HostAgentPID inst \<and>
    SSHLocalPort inst' = SSHLocalPort inst \<and> VMType inst' = VMType inst \<and>
    (Status inst = StatusBroken \<longrightarrow> Status inst' = StatusBroken) \<and>
    (\<exists>es. Errors inst' = Errors inst @ es) \<and>
    (\<exists>cs. calls W' = calls W @ cs \<and> (\<forall>s. NewHostAgentClient s \<notin> set cs \<and> Info s \<notin> set cs))"
proof -
  from assms obtain vmType where vm: "LimaYAML.VMType y = Some vmType"
    by (auto simp add: Inspect_driverPID_def split: option.splits)
  from assms show ?thesis
    using ReadPIDFile_calls [of "filepath_Join E instDir (filenames_PIDFile E vmType)" W]
    by (auto simp add: Inspect_driverPID_eq [OF vm] split: option.splits)
qed

lemma Inspect_hostAgentPID_frame:
  assumes "Inspect_hostAgentPID E instDir inst W = (inst', W')"
  shows "Name inst' = Name inst \<and> Dir inst' = Dir inst \<and> Memory inst' = Memory inst \<and>
    Disk inst' = Disk inst \<and> SSHLocalPort inst' = SSHLocalPort inst \<and> VMType inst' = VMType inst \<and>
    HostAgentPID inst' = fst (fst (ReadPIDFile (filepath_Join E instDir (filenames_HostAgentPID E)) W)) \<and>
    client_error W' = client_error W \<and> info_result W' = info_result W \<and>
    (\<exists>cs. calls W' = calls W @ cs \<and> (\<forall>s. NewHostAgentClient s \<notin> set cs \<and> Info s \<notin> set cs))"
  using assms ReadPIDFile_calls [of "filepath_Join E instDir (filenames_HostAgentPID E)" W]
    ReadPIDFile_sockets [of "filepath_Join E instDir (filenames_HostAgentPID E)" W]
  by (auto simp add: Inspect_hostAgentPID_eq)

lemma Inspect_hostAgentInfo_cases:
  assumes "Inspect_hostAgentInfo E instDir inst W = (inst', W')"
  shows "\<exists>cs. calls W' = calls W @ cs \<and>
    (NewHostAgentClient (filepath_Join E instDir (filenames_HostAgentSock E)) \<in> set cs) =
      (HostAgentPID inst \<noteq> 0) \<and>
    (Info (filepath_Join E instDir (filenames_HostAgentSock E)) \<in> set cs) =
      (HostAgentPID inst \<noteq> 0 \<and>
       client_error W (filepath_Join E instDir (filenames_HostAgentSock E)) = None) \<and>
    (HostAgentPID inst = 0 \<longrightarrow> SSHLocalPort inst' = SSHLocalPort inst) \<and>
    (HostAgentPID inst \<noteq> 0 \<longrightarrow>
      (case client_error W (filepath_Join E instDir (filenames_HostAgentSock E)) of
         Some e \<Rightarrow>
           SSHLocalPort inst' = SSHLocalPort inst \<and> Status inst' = StatusBroken \<and>
           Errorf_w ''failed to connect to %q: %w''
             [filepath_Join E instDir (filenames_HostAgentSock E)] e \<in> set (Errors inst')
       | None \<Rightarrow>
          (case info_result W (filepath_Join E instDir (filenames_HostAgentSock E)) of
             Inl e \<Rightarrow>
               SSHLocalPort inst' = SSHLocalPort inst \<and> Status inst' = StatusBroken \<and>
               Errorf_w ''failed to get Info from %q: %w''
                 [filepath_Join E instDir (filenames_HostAgentSock E)] e \<in> set (Errors inst')
           | Inr info \<Rightarrow> SSHLocalPort inst' = api_Info.SSHLocalPort info)))"
  using assms
  by (auto simp add: Inspect_hostAgentInfo_eq split: if_splits option.splits sum.splits)

lemma Inspect_tail:
  assumes "Inspect_driverPID E instDir y inst3 W3 = Some (inst4, W4)"
    and "inst = Inspect_message E y (Inspect_status inst4)"
  shows "SSHLocalPort inst = SSHLocalPort inst3 \<and> HostAgentPID inst = HostAgentPID inst3 \<and>
    (Status inst3 = StatusBroken \<longrightarrow> Status inst = StatusBroken) \<and>
    set (Errors inst3) \<subseteq> set (Errors inst) \<and>
    (\<exists>cs. calls W4 = calls W3 @ cs \<and> (\<forall>s. NewHostAgentClient s \<notin> set cs \<and> Info s \<notin> set cs))"
proof -
  note f4 = Inspect_driverPID_frame [OF assms(1)]
  from f4 obtain es4 where e4: "Errors inst4 = Errors inst3 @ es4" by blast
  obtain es5 where e5: "Errors (Inspect_status inst4) = Errors inst4 @ es5"
    using Inspect_status_Errors by blast
  obtain es6 where e6: "Errors inst = Errors (Inspect_status inst4) @ es6"
    using Inspect_message_Errors assms(2) by blast
  have errs: "set (Errors inst3) \<subseteq> set (Errors inst)" using e4 e5 e6 by auto
  have broken: "Status inst3 = StatusBroken \<Longrightarrow> Status inst = StatusBroken"
    using f4 assms(2) by (simp add: Inspect_status_Broken Inspect_message_Broken)
  have fields: "SSHLocalPort inst = SSHLocalPort inst3" "HostAgentPID inst = HostAgentPID inst3"
    using f4 assms(2) by (simp_all add: Inspect_message_frame Inspect_status_frame)
  show ?thesis using errs broken fields f4 by blast
qed

text \<open>Runs on the concrete hosts.\<close>

lemma Atoi_4242: "Atoi (TrimSpace (''4242'' @ [CHR 0x0A])) = Inr 4242" by code_simp

lemma Atoi_4250: "Atoi (TrimSpace (''4250'' @ [CHR 0x0A])) = Inr 4250" by code_simp

lemma Atoi_abc:
  "Atoi (TrimSpace ''abc'') = Inl (Errorf ''strconv.Atoi: parsing %q: invalid syntax'' [''abc''])"
  by code_simp

lemma Atoi_4250x:
  "Atoi (TrimSpace ''4250x'') = Inl (Errorf ''strconv.Atoi: parsing %q: invalid syntax'' [''4250x''])"
  by code_simp

lemma example_dir: "InstanceDir example_env ''default'' = Inr ''/home/u/.lima/default''"
  by (simp add: example_env_def)

lemma example_load:
  "LoadYAMLByFilePath example_env
     (filepath_Join example_env ''/home/u/.lima/default'' (filenames_LimaYAML example_env)) =
   Inr example_config"
  by (simp add: example_env_def)





lemma Inspect_running:
  "Inspect example_env ''default'' running_world =
    (Return (Some (configured_instance\<lparr>Status := StatusRunning, Message := ''ready'',
       SSHLocalPort := 50022, HostAgentPID := 4242, DriverPID := 4250\<rparr>)) None,
     running_world\<lparr>calls :=
       [ReadFile ''/home/u/.lima/default/ha.pid'', FindProcess 4242, Signal 4242,
        NewHostAgentClient ''/home/u/.lima/default/ha.sock'', Info ''/home/u/.lima/default/ha.sock'',
        ReadFile ''/home/u/.lima/default/qemu.pid'', FindProcess 4250, Signal 4250]\<rparr>)"
  using Atoi_4242 Atoi_4250
  by (simp add: Inspect_def Inspect_defs example_defs configured_instance_def)

lemma Inspect_deaf:
  "Inspect example_env ''default'' deaf_world =
    (Return (Some (configured_instance\<lparr>Status := StatusBroken, Message := ''ready'',
       HostAgentPID := 4242, DriverPID := 4250,
       Errors := [Errorf_w ''failed to get Info from %q: %w'' [''/home/u/.lima/default/ha.sock'']
                   (errors_New ''context deadline exceeded'')]\<rparr>)) None,
     deaf_world\<lparr>calls :=
       [ReadFile ''/home/u/.lima/default/ha.pid'', FindProcess 4242, Signal 4242,
        NewHostAgentClient ''/home/u/.lima/default/ha.sock'', Info ''/home/u/.lima/default/ha.sock'',
        ReadFile ''/home/u/.lima/default/qemu.pid'', FindProcess 4250, Signal 4250]\<rparr>)"
  using Atoi_4242 Atoi_4250
  by (simp add: Inspect_def Inspect_defs example_defs configured_instance_def deaf_world_def)

lemma Inspect_unsized:
  "Inspect unsized_env ''default'' example_world =
    (Return (Some (configured_instance\<lparr>Status := StatusStopped, Message := ''ready'', Memory := 0,
       Config := Some (example_config\<lparr>LimaYAML.Memory := Some ''lots''\<rparr>)\<rparr>)) None,
     example_world\<lparr>calls :=
       [ReadFile ''/home/u/.lima/default/ha.pid'', ReadFile ''/home/u/.lima/default/qemu.pid'']\<rparr>)"
  by (simp add: Inspect_def Inspect_defs example_defs configured_instance_def unsized_env_def)

lemma garbled_steps:
  "Inspect_config example_env example_config (Inspect_init ''default'' ''/home/u/.lima/default'') =
     Some configured_instance"
  "Inspect_hostAgentPID example_env ''/home/u/.lima/default'' configured_instance garbled_world =
     (garbled_instance, garbled_world\<lparr>calls := [ReadFile ''/home/u/.lima/default/ha.pid'']\<rparr>)"
  "Inspect_hostAgentInfo example_env ''/home/u/.lima/default'' garbled_instance
     (garbled_world\<lparr>calls := [ReadFile ''/home/u/.lima/default/ha.pid'']\<rparr>) =
     (garbled_instance, garbled_world\<lparr>calls := [ReadFile ''/home/u/.lima/default/ha.pid'']\<rparr>)"
  "Inspect_driverPID example_env ''/home/u/.lima/default'' example_config garbled_instance
     (garbled_world\<lparr>calls := [ReadFile ''/home/u/.lima/default/ha.pid'']\<rparr>) =
     Some (garbled_instance
        \<lparr>Errors := [Errorf ''strconv.Atoi: parsing %q: invalid syntax'' [''abc''],
                    Errorf ''strconv.Atoi: parsing %q: invalid syntax'' [''4250x'']]\<rparr>,
      garbled_world\<lparr>calls := [ReadFile ''/home/u/.lima/default/ha.pid'',
                                ReadFile ''/home/u/.lima/default/qemu.pid'']\<rparr>)"
  using Atoi_abc Atoi_4250x
  by (simp_all add: Inspect_defs example_defs configured_instance_def garbled_instance_def
      garbled_world_def)






lemma mute_dir: "InstanceDir mute_env ''default'' = Inr ''/home/u/.lima/default''"
  by (simp add: mute_env_def example_env_def)

lemma mute_load:
  "LoadYAMLByFilePath mute_env
     (filepath_Join mute_env ''/home/u/.lima/default'' (filenames_LimaYAML mute_env)) =
   Inr example_config"
  by (simp add: mute_env_def example_env_def)

lemma garbled_steps_mute:
  "Inspect_config mute_env example_config (Inspect_init ''default'' ''/home/u/.lima/default'') =
     Some configured_instance"
  "Inspect_hostAgentPID mute_env ''/home/u/.lima/default'' configured_instance garbled_world =
     (garbled_instance, garbled_world\<lparr>calls := [ReadFile ''/home/u/.lima/default/ha.pid'']\<rparr>)"
  "Inspect_hostAgentInfo mute_env ''/home/u/.lima/default'' garbled_instance
     (garbled_world\<lparr>calls := [ReadFile ''/home/u/.lima/default/ha.pid'']\<rparr>) =
     (garbled_instance, garbled_world\<lparr>calls := [ReadFile ''/home/u/.lima/default/ha.pid'']\<rparr>)"
  "Inspect_driverPID mute_env ''/home/u/.lima/default'' example_config garbled_instance
     (garbled_world\<lparr>calls := [ReadFile ''/home/u/.lima/default/ha.pid'']\<rparr>) =
     Some (garbled_instance
        \<lparr>Errors := [Errorf ''strconv.Atoi: parsing %q: invalid syntax'' [''abc''],
                    Errorf ''strconv.Atoi: parsing %q: invalid syntax'' [''4250x'']]\<rparr>,
      garbled_world\<lparr>calls := [ReadFile ''/home/u/.lima/default/ha.pid'',
                                ReadFile ''/home/u/.lima/default/qemu.pid'']\<rparr>)"
  using Atoi_abc Atoi_4250x
  by (simp_all add: Inspect_defs example_defs configured_instance_def garbled_instance_def
      garbled_world_def mute_env_def)

text \<open>
  C3. When \<open>InstanceDir\<close> fails, and when the loader fails with an error that is
  \<open>os.ErrNotExist\<close>, \<open>Inspect\<close> returns that error and a nil Instance, and has touched
  nothing on the host.
\<close>

theorem Inspect_not_exist:
  "(InstanceDir E instName = Inl err \<longrightarrow> Inspect E instName W = (Return None (Some err), W)) \<and>
   (InstanceDir E instName = Inr instDir \<and>
    LoadYAMLByFilePath E (filepath_Join E instDir (filenames_LimaYAML E)) = Inl err \<and>
    errors_Is err ErrNotExist \<longrightarrow>
    Inspect E instName W = (Return None (Some err), W))"
  by (simp add: Inspect_def)

theorem Inspect_not_exist_witness:
  "InstanceDir example_env '''' = Inl (errors_New ''identifier must not be empty'') \<and>
   Inspect example_env '''' example_world =
     (Return None (Some (errors_New ''identifier must not be empty'')), example_world) \<and>
   InstanceDir example_env ''nope'' = Inr ''/home/u/.lima/nope'' \<and>
   LoadYAMLByFilePath example_env
     (filepath_Join example_env ''/home/u/.lima/nope'' (filenames_LimaYAML example_env)) =
     Inl (Errorf_w ''open %s: %w'' [''/home/u/.lima/nope/lima.yaml''] (Sentinel ErrNotExist)) \<and>
   errors_Is (Errorf_w ''open %s: %w'' [''/home/u/.lima/nope/lima.yaml''] (Sentinel ErrNotExist))
     ErrNotExist \<and>
   Inspect example_env ''nope'' example_world =
     (Return None
        (Some (Errorf_w ''open %s: %w'' [''/home/u/.lima/nope/lima.yaml''] (Sentinel ErrNotExist))),
      example_world)"
proof -
  have a: "InstanceDir example_env '''' = Inl (errors_New ''identifier must not be empty'')"
    by (simp add: example_env_def)
  have b: "InstanceDir example_env ''nope'' = Inr ''/home/u/.lima/nope''"
    by (simp add: example_env_def)
  have c: "LoadYAMLByFilePath example_env
     (filepath_Join example_env ''/home/u/.lima/nope'' (filenames_LimaYAML example_env)) =
     Inl (Errorf_w ''open %s: %w'' [''/home/u/.lima/nope/lima.yaml''] (Sentinel ErrNotExist))"
    by (simp add: example_env_def)
  have d: "errors_Is (Errorf_w ''open %s: %w'' [''/home/u/.lima/nope/lima.yaml''] (Sentinel ErrNotExist))
     ErrNotExist" by simp
  from Inspect_not_exist [of example_env "''''" "errors_New ''identifier must not be empty''" example_world]
    Inspect_not_exist [of example_env "''nope''" _ example_world "''/home/u/.lima/nope''"]
    a b c d
  show ?thesis by simp
qed

text \<open>
  C1. The statement does not hold of the code. When the loader fails with an error that is not
  \<open>os.ErrNotExist\<close>, \<open>Inspect\<close> does return the partially populated Instance with a
  nil error and with the load error as its only soft error, but lines 84 and 85 return
  without setting the status: it is still \<open>StatusUnknown\<close>, not \<open>StatusBroken\<close>. Every
  other place of \<open>Inspect\<close> that appends to \<open>Errors\<close> also sets \<open>StatusBroken\<close>. The
  theorem states what the code returns.
\<close>

theorem Inspect_malformed_config:
  assumes "InstanceDir E instName = Inr instDir"
    and "LoadYAMLByFilePath E (filepath_Join E instDir (filenames_LimaYAML E)) = Inl err"
    and "\<not> errors_Is err ErrNotExist"
  shows "Inspect E instName W =
      (Return (Some (Instance_zero\<lparr>Name := instName, Status := StatusUnknown, Dir := instDir,
                                    Errors := [err]\<rparr>)) None, W) \<and>
    StatusUnknown \<noteq> StatusBroken"
  using assms by (simp add: Inspect_def Instance_zero_def StatusUnknown_def StatusBroken_def)

theorem Inspect_malformed_config_witness:
  "InstanceDir example_env ''broken'' = Inr ''/home/u/.lima/broken'' \<and>
   LoadYAMLByFilePath example_env
     (filepath_Join example_env ''/home/u/.lima/broken'' (filenames_LimaYAML example_env)) =
     Inl (errors_New ''yaml: line 3: mapping values are not allowed in this context'') \<and>
   \<not> errors_Is (errors_New ''yaml: line 3: mapping values are not allowed in this context'') ErrNotExist \<and>
   Inspect example_env ''broken'' example_world =
     (Return (Some (Instance_zero\<lparr>Name := ''broken'', Status := StatusUnknown,
        Dir := ''/home/u/.lima/broken'',
        Errors := [errors_New ''yaml: line 3: mapping values are not allowed in this context'']\<rparr>))
        None, example_world) \<and>
   StatusUnknown \<noteq> StatusBroken"
proof -
  have a: "InstanceDir example_env ''broken'' = Inr ''/home/u/.lima/broken''"
    by (simp add: example_env_def)
  have b: "LoadYAMLByFilePath example_env
     (filepath_Join example_env ''/home/u/.lima/broken'' (filenames_LimaYAML example_env)) =
     Inl (errors_New ''yaml: line 3: mapping values are not allowed in this context'')"
    by (simp add: example_env_def)
  have c: "\<not> errors_Is (errors_New ''yaml: line 3: mapping values are not allowed in this context'') ErrNotExist"
    by simp
  from Inspect_malformed_config [OF a b c, of example_world] a b c show ?thesis by simp
qed

text \<open>
  C10. Every Instance that \<open>Inspect\<close> returns, also the partially populated one of a
  malformed configuration, comes with a nil error, has the requested name, and has as
  \<open>Dir\<close> the directory that \<open>InstanceDir\<close> resolved for that name; so \<open>Dir\<close> is not empty
  as long as \<open>InstanceDir\<close> does not resolve a name to the empty path.
\<close>

theorem Inspect_Name_Dir:
  assumes "Inspect E instName W = (Return (Some inst) err, W')"
  shows "err = None \<and> Name inst = instName \<and> InstanceDir E instName = Inr (Dir inst) \<and>
    ((\<forall>dir. InstanceDir E instName = Inr dir \<longrightarrow> dir \<noteq> []) \<longrightarrow> Dir inst \<noteq> [])"
proof (cases "InstanceDir E instName")
  case (Inl e)
  with assms show ?thesis by (simp add: Inspect_def)
next
  case (Inr instDir)
  note dir = this
  show ?thesis
  proof (cases "LoadYAMLByFilePath E (filepath_Join E instDir (filenames_LimaYAML E))")
    case (Inl e)
    with assms dir show ?thesis
      by (auto simp add: Inspect_def Instance_zero_def Let_def split: if_splits)
  next
    case (Inr y)
    from Inspect_Return_steps [OF dir Inr assms]
    obtain inst1 inst2 W2 inst3 W3 inst4 where
      s1: "Inspect_config E y (Inspect_init instName instDir) = Some inst1" and
      s2: "Inspect_hostAgentPID E instDir inst1 W = (inst2, W2)" and
      s3: "Inspect_hostAgentInfo E instDir inst2 W2 = (inst3, W3)" and
      s4: "Inspect_driverPID E instDir y inst3 W3 = Some (inst4, W')" and
      s5: "inst = Inspect_message E y (Inspect_status inst4)" and e: "err = None"
      by blast
    from Inspect_config_eq [OF s1] have n1: "Name inst1 = instName" "Dir inst1 = instDir"
      by (auto simp add: Inspect_init_def)
    from s2 have n2: "Name inst2 = Name inst1" "Dir inst2 = Dir inst1"
      by (auto simp add: Inspect_hostAgentPID_eq)
    from Inspect_hostAgentInfo_frame [OF s3] have n3: "Name inst3 = Name inst2" "Dir inst3 = Dir inst2"
      by simp_all
    from s4 Inspect_config_eq [OF s1] have n4: "Name inst4 = Name inst3" "Dir inst4 = Dir inst3"
      by (auto simp add: Inspect_driverPID_eq)
    from s5 have n5: "Name inst = Name inst4" "Dir inst = Dir inst4"
      by (simp_all add: Inspect_message_frame Inspect_status_frame)
    from n1 n2 n3 n4 n5 e dir show ?thesis by simp
  qed
qed

theorem Inspect_Name_Dir_witness:
  "Inspect example_env ''broken'' example_world =
     (Return (Some (Instance_zero\<lparr>Name := ''broken'', Dir := ''/home/u/.lima/broken'',
        Errors := [errors_New ''yaml: line 3: mapping values are not allowed in this context'']\<rparr>))
        None, example_world) \<and>
   Name (Instance_zero\<lparr>Name := ''broken'', Dir := ''/home/u/.lima/broken'',
        Errors := [errors_New ''yaml: line 3: mapping values are not allowed in this context'']\<rparr>) =
     ''broken'' \<and>
   InstanceDir example_env ''broken'' =
     Inr (Dir (Instance_zero\<lparr>Name := ''broken'', Dir := ''/home/u/.lima/broken'',
        Errors := [errors_New ''yaml: line 3: mapping values are not allowed in this context'']\<rparr>)) \<and>
   fst (Inspect example_env ''default'' running_world) =
     Return (Some (configured_instance\<lparr>Status := StatusRunning, Message := ''ready'',
       SSHLocalPort := 50022, HostAgentPID := 4242, DriverPID := 4250\<rparr>)) None \<and>
   Name (configured_instance\<lparr>Status := StatusRunning, Message := ''ready'',
       SSHLocalPort := 50022, HostAgentPID := 4242, DriverPID := 4250\<rparr>) = ''default'' \<and>
   InstanceDir example_env ''default'' =
     Inr (Dir (configured_instance\<lparr>Status := StatusRunning, Message := ''ready'',
       SSHLocalPort := 50022, HostAgentPID := 4242, DriverPID := 4250\<rparr>))"
proof -
  have b: "Inspect example_env ''broken'' example_world =
     (Return (Some (Instance_zero\<lparr>Name := ''broken'', Dir := ''/home/u/.lima/broken'',
        Errors := [errors_New ''yaml: line 3: mapping values are not allowed in this context'']\<rparr>))
        None, example_world)"
    by (simp add: Inspect_def example_defs Let_def)
  from Inspect_Name_Dir [OF b] Inspect_Name_Dir [OF Inspect_running] b Inspect_running
  show ?thesis by simp
qed




text \<open>
  C6. When \<open>units.RAMInBytes\<close> rejects the memory size of the configuration, the
  Instance that \<open>Inspect\<close> returns has \<open>Memory = 0\<close>; likewise \<open>Disk = 0\<close> for the disk
  size. The step that copies the configuration never changes \<open>Errors\<close> or \<open>Status\<close>,
  whether the sizes parse or not: no error is appended and \<open>StatusBroken\<close> is not forced.
\<close>

theorem Inspect_size_parse_failure:
  assumes "InstanceDir E instName = Inr instDir"
    and "LoadYAMLByFilePath E (filepath_Join E instDir (filenames_LimaYAML E)) = Inr y"
    and "Inspect E instName W = (Return (Some inst) err, W')"
  shows "(\<forall>m e. LimaYAML.Memory y = Some m \<and> RAMInBytes E m = Inl e \<longrightarrow> Memory inst = 0) \<and>
    (\<forall>s e. LimaYAML.Disk y = Some s \<and> RAMInBytes E s = Inl e \<longrightarrow> Disk inst = 0) \<and>
    (\<forall>i i'. Inspect_config E y i = Some i' \<longrightarrow> Errors i' = Errors i \<and> Status i' = Status i)"
proof -
  from Inspect_Return_steps [OF assms]
  obtain inst1 inst2 W2 inst3 W3 inst4 where
    s1: "Inspect_config E y (Inspect_init instName instDir) = Some inst1" and
    s2: "Inspect_hostAgentPID E instDir inst1 W = (inst2, W2)" and
    s3: "Inspect_hostAgentInfo E instDir inst2 W2 = (inst3, W3)" and
    s4: "Inspect_driverPID E instDir y inst3 W3 = Some (inst4, W')" and
    s5: "inst = Inspect_message E y (Inspect_status inst4)"
    by blast
  have keep: "Memory inst = Memory inst1" "Disk inst = Disk inst1"
    using Inspect_hostAgentPID_frame [OF s2] Inspect_hostAgentInfo_frame [OF s3]
      Inspect_driverPID_frame [OF s4] s5
    by (simp_all add: Inspect_message_frame Inspect_status_frame)
  have mem: "LimaYAML.Memory y = Some m \<Longrightarrow> RAMInBytes E m = Inl e \<Longrightarrow> Memory inst1 = 0" for m e
    using Inspect_config_eq [OF s1] by (auto simp add: Inspect_init_def Instance_zero_def)
  have dsk: "LimaYAML.Disk y = Some s \<Longrightarrow> RAMInBytes E s = Inl e \<Longrightarrow> Disk inst1 = 0" for s e
    using Inspect_config_eq [OF s1] by (auto simp add: Inspect_init_def Instance_zero_def)
  have frame: "Inspect_config E y i = Some i' \<Longrightarrow> Errors i' = Errors i \<and> Status i' = Status i" for i i'
    using Inspect_config_eq [of E y i i'] by auto
  show ?thesis using keep mem dsk frame by auto
qed

theorem Inspect_size_parse_failure_witness:
  "InstanceDir unsized_env ''default'' = Inr ''/home/u/.lima/default'' \<and>
   LoadYAMLByFilePath unsized_env
     (filepath_Join unsized_env ''/home/u/.lima/default'' (filenames_LimaYAML unsized_env)) =
     Inr (example_config\<lparr>LimaYAML.Memory := Some ''lots''\<rparr>) \<and>
   RAMInBytes unsized_env ''lots'' = Inl (Errorf ''invalid size: %s'' [''lots'']) \<and>
   Memory (configured_instance\<lparr>Status := StatusStopped, Message := ''ready'', Memory := 0,
       Config := Some (example_config\<lparr>LimaYAML.Memory := Some ''lots''\<rparr>)\<rparr>) = 0 \<and>
   fst (Inspect unsized_env ''default'' example_world) =
     Return (Some (configured_instance\<lparr>Status := StatusStopped, Message := ''ready'', Memory := 0,
       Config := Some (example_config\<lparr>LimaYAML.Memory := Some ''lots''\<rparr>)\<rparr>)) None \<and>
   Errors (configured_instance\<lparr>Status := StatusStopped, Message := ''ready'', Memory := 0,
       Config := Some (example_config\<lparr>LimaYAML.Memory := Some ''lots''\<rparr>)\<rparr>) = []"
proof -
  have d: "InstanceDir unsized_env ''default'' = Inr ''/home/u/.lima/default''"
    by (simp add: unsized_env_def example_env_def)
  have l: "LoadYAMLByFilePath unsized_env
     (filepath_Join unsized_env ''/home/u/.lima/default'' (filenames_LimaYAML unsized_env)) =
     Inr (example_config\<lparr>LimaYAML.Memory := Some ''lots''\<rparr>)"
    by (simp add: unsized_env_def example_env_def)
  have r: "RAMInBytes unsized_env ''lots'' = Inl (Errorf ''invalid size: %s'' [''lots''])"
    by (simp add: unsized_env_def example_env_def)
  have m: "LimaYAML.Memory (example_config\<lparr>LimaYAML.Memory := Some ''lots''\<rparr>) = Some ''lots''"
    by simp
  from Inspect_size_parse_failure [OF d l Inspect_unsized] m r
  have "Memory (configured_instance\<lparr>Status := StatusStopped, Message := ''ready'', Memory := 0,
       Config := Some (example_config\<lparr>LimaYAML.Memory := Some ''lots''\<rparr>)\<rparr>) = 0"
    by blast
  with d l r Inspect_unsized show ?thesis by (simp add: configured_instance_def)
qed

text \<open>
  C7. For every Instance that \<open>Inspect\<close> returns from a loaded configuration, with
  \<open>cs\<close> the calls made during the run: \<open>HostAgentPID\<close> is what the probe of the host
  agent's PID file returned; the client for the host agent's socket is created (the query
  is attempted) if and only if that id is not 0, and the \<open>Info\<close> request is then sent
  unless creating the client failed. When the id is 0 the port is the configured one. When
  the query succeeds the port is the one of the answer. When creating the client or the
  request fails, the port is the configured one, the status is \<open>StatusBroken\<close>, and the
  error, wrapped with the socket path, is among the errors.
\<close>

theorem Inspect_hostAgent_query:
  assumes "InstanceDir E instName = Inr instDir"
    and "LoadYAMLByFilePath E (filepath_Join E instDir (filenames_LimaYAML E)) = Inr y"
    and "Inspect E instName W = (Return (Some inst) err, W')"
  shows "\<exists>port cs. LocalPort (SSH y) = Some port \<and> calls W' = calls W @ cs \<and>
    HostAgentPID inst = fst (fst (ReadPIDFile (filepath_Join E instDir (filenames_HostAgentPID E)) W)) \<and>
    (NewHostAgentClient (filepath_Join E instDir (filenames_HostAgentSock E)) \<in> set cs) =
      (HostAgentPID inst \<noteq> 0) \<and>
    (Info (filepath_Join E instDir (filenames_HostAgentSock E)) \<in> set cs) =
      (HostAgentPID inst \<noteq> 0 \<and>
       client_error W (filepath_Join E instDir (filenames_HostAgentSock E)) = None) \<and>
    (HostAgentPID inst = 0 \<longrightarrow> SSHLocalPort inst = port) \<and>
    (HostAgentPID inst \<noteq> 0 \<longrightarrow>
      (case client_error W (filepath_Join E instDir (filenames_HostAgentSock E)) of
         Some e \<Rightarrow>
           SSHLocalPort inst = port \<and> Status inst = StatusBroken \<and>
           Errorf_w ''failed to connect to %q: %w''
             [filepath_Join E instDir (filenames_HostAgentSock E)] e \<in> set (Errors inst)
       | None \<Rightarrow>
          (case info_result W (filepath_Join E instDir (filenames_HostAgentSock E)) of
             Inl e \<Rightarrow>
               SSHLocalPort inst = port \<and> Status inst = StatusBroken \<and>
               Errorf_w ''failed to get Info from %q: %w''
                 [filepath_Join E instDir (filenames_HostAgentSock E)] e \<in> set (Errors inst)
           | Inr info \<Rightarrow> SSHLocalPort inst = api_Info.SSHLocalPort info)))"
proof -
  let ?s = "filepath_Join E instDir (filenames_HostAgentSock E)"
  from Inspect_Return_steps [OF assms]
  obtain inst1 inst2 W2 inst3 W3 inst4 where
    s1: "Inspect_config E y (Inspect_init instName instDir) = Some inst1" and
    s2: "Inspect_hostAgentPID E instDir inst1 W = (inst2, W2)" and
    s3: "Inspect_hostAgentInfo E instDir inst2 W2 = (inst3, W3)" and
    s4: "Inspect_driverPID E instDir y inst3 W3 = Some (inst4, W')" and
    s5: "inst = Inspect_message E y (Inspect_status inst4)"
    by blast
  from Inspect_config_eq [OF s1] obtain port where
    port: "LocalPort (SSH y) = Some port" "SSHLocalPort inst1 = port"
    by auto
  note f2 = Inspect_hostAgentPID_frame [OF s2]
  from f2 obtain cs2 where
    c2: "calls W2 = calls W @ cs2" "NewHostAgentClient ?s \<notin> set cs2" "Info ?s \<notin> set cs2"
    by blast
  from Inspect_hostAgentInfo_cases [OF s3] obtain cs3 where
    c3: "calls W3 = calls W2 @ cs3"
      "(NewHostAgentClient ?s \<in> set cs3) = (HostAgentPID inst2 \<noteq> 0)"
      "(Info ?s \<in> set cs3) = (HostAgentPID inst2 \<noteq> 0 \<and> client_error W2 ?s = None)" and
    q0: "HostAgentPID inst2 = 0 \<longrightarrow> SSHLocalPort inst3 = SSHLocalPort inst2" and
    q1: "HostAgentPID inst2 \<noteq> 0 \<longrightarrow>
      (case client_error W2 ?s of
         Some e \<Rightarrow>
           SSHLocalPort inst3 = SSHLocalPort inst2 \<and> Status inst3 = StatusBroken \<and>
           Errorf_w ''failed to connect to %q: %w'' [?s] e \<in> set (Errors inst3)
       | None \<Rightarrow>
          (case info_result W2 ?s of
             Inl e \<Rightarrow>
               SSHLocalPort inst3 = SSHLocalPort inst2 \<and> Status inst3 = StatusBroken \<and>
               Errorf_w ''failed to get Info from %q: %w'' [?s] e \<in> set (Errors inst3)
           | Inr info \<Rightarrow> SSHLocalPort inst3 = api_Info.SSHLocalPort info))"
    by blast
  note t = Inspect_tail [OF s4 s5]
  from t obtain cs4 where
    c4: "calls W' = calls W3 @ cs4" "NewHostAgentClient ?s \<notin> set cs4" "Info ?s \<notin> set cs4"
    by blast
  from Inspect_hostAgentInfo_frame [OF s3] have h3: "HostAgentPID inst3 = HostAgentPID inst2"
    by simp
  have pid: "HostAgentPID inst = HostAgentPID inst2" using t h3 by simp
  have p2: "SSHLocalPort inst2 = port" using f2 port by simp
  have w2: "client_error W2 = client_error W" "info_result W2 = info_result W" using f2 by simp_all
  have a: "calls W' = calls W @ (cs2 @ cs3 @ cs4)" using c2 c3 c4 by simp
  have b: "(NewHostAgentClient ?s \<in> set (cs2 @ cs3 @ cs4)) = (HostAgentPID inst \<noteq> 0)"
    using c2 c3 c4 pid by simp
  have c: "(Info ?s \<in> set (cs2 @ cs3 @ cs4)) = (HostAgentPID inst \<noteq> 0 \<and> client_error W ?s = None)"
    using c2 c3 c4 pid w2 by simp
  have d: "HostAgentPID inst = fst (fst (ReadPIDFile (filepath_Join E instDir (filenames_HostAgentPID E)) W))"
    using pid f2 by simp
  have e: "HostAgentPID inst = 0 \<longrightarrow> SSHLocalPort inst = port"
    using q0 pid p2 t by simp
  have f: "HostAgentPID inst \<noteq> 0 \<longrightarrow>
      (case client_error W ?s of
         Some e \<Rightarrow>
           SSHLocalPort inst = port \<and> Status inst = StatusBroken \<and>
           Errorf_w ''failed to connect to %q: %w'' [?s] e \<in> set (Errors inst)
       | None \<Rightarrow>
          (case info_result W ?s of
             Inl e \<Rightarrow>
               SSHLocalPort inst = port \<and> Status inst = StatusBroken \<and>
               Errorf_w ''failed to get Info from %q: %w'' [?s] e \<in> set (Errors inst)
           | Inr info \<Rightarrow> SSHLocalPort inst = api_Info.SSHLocalPort info))"
    using q1 pid p2 t w2 by (auto split: option.splits sum.splits)
  show ?thesis using port(1) a b c d e f by blast
qed

theorem Inspect_hostAgent_query_witness:
  "fst (Inspect example_env ''default'' running_world) =
     Return (Some (configured_instance\<lparr>Status := StatusRunning, Message := ''ready'',
       SSHLocalPort := 50022, HostAgentPID := 4242, DriverPID := 4250\<rparr>)) None \<and>
   LocalPort (SSH example_config) = Some 60022 \<and>
   info_result running_world ''/home/u/.lima/default/ha.sock'' = Inr \<lparr>api_Info.SSHLocalPort = 50022\<rparr> \<and>
   NewHostAgentClient ''/home/u/.lima/default/ha.sock''
     \<in> set (calls (snd (Inspect example_env ''default'' running_world))) \<and>
   fst (Inspect example_env ''default'' deaf_world) =
     Return (Some (configured_instance\<lparr>Status := StatusBroken, Message := ''ready'',
       HostAgentPID := 4242, DriverPID := 4250,
       Errors := [Errorf_w ''failed to get Info from %q: %w'' [''/home/u/.lima/default/ha.sock'']
                   (errors_New ''context deadline exceeded'')]\<rparr>)) None \<and>
   info_result deaf_world ''/home/u/.lima/default/ha.sock'' =
     Inl (errors_New ''context deadline exceeded'') \<and>
   (\<exists>port cs. LocalPort (SSH example_config) = Some port \<and>
      calls (snd (Inspect example_env ''default'' deaf_world)) = calls deaf_world @ cs \<and>
      NewHostAgentClient ''/home/u/.lima/default/ha.sock'' \<in> set cs \<and>
      Info ''/home/u/.lima/default/ha.sock'' \<in> set cs \<and>
      SSHLocalPort (configured_instance\<lparr>Status := StatusBroken, Message := ''ready'',
       HostAgentPID := 4242, DriverPID := 4250,
       Errors := [Errorf_w ''failed to get Info from %q: %w'' [''/home/u/.lima/default/ha.sock'']
                   (errors_New ''context deadline exceeded'')]\<rparr>) = port)"
proof -
  have i: "info_result deaf_world ''/home/u/.lima/default/ha.sock'' =
     Inl (errors_New ''context deadline exceeded'')"
     "client_error deaf_world ''/home/u/.lima/default/ha.sock'' = None"
    by (simp_all add: deaf_world_def example_defs)
  have s: "filepath_Join example_env ''/home/u/.lima/default'' (filenames_HostAgentSock example_env) =
    ''/home/u/.lima/default/ha.sock''"
    by (simp add: example_env_def)
  have p: "HostAgentPID (configured_instance\<lparr>Status := StatusBroken, Message := ''ready'',
       HostAgentPID := 4242, DriverPID := 4250,
       Errors := [Errorf_w ''failed to get Info from %q: %w'' [''/home/u/.lima/default/ha.sock'']
                   (errors_New ''context deadline exceeded'')]\<rparr>) \<noteq> 0"
    by simp
  from Inspect_hostAgent_query [OF example_dir example_load Inspect_deaf]
  have deaf: "\<exists>port cs. LocalPort (SSH example_config) = Some port \<and>
      calls (snd (Inspect example_env ''default'' deaf_world)) = calls deaf_world @ cs \<and>
      NewHostAgentClient ''/home/u/.lima/default/ha.sock'' \<in> set cs \<and>
      Info ''/home/u/.lima/default/ha.sock'' \<in> set cs \<and>
      SSHLocalPort (configured_instance\<lparr>Status := StatusBroken, Message := ''ready'',
       HostAgentPID := 4242, DriverPID := 4250,
       Errors := [Errorf_w ''failed to get Info from %q: %w'' [''/home/u/.lima/default/ha.sock'']
                   (errors_New ''context deadline exceeded'')]\<rparr>) = port"
    unfolding s using i p by (auto simp add: Inspect_deaf)
  have r: "info_result running_world ''/home/u/.lima/default/ha.sock'' =
      Inr \<lparr>api_Info.SSHLocalPort = 50022\<rparr>"
    "LocalPort (SSH example_config) = Some 60022"
    by (simp_all add: example_defs)
  from Inspect_hostAgent_query [OF example_dir example_load Inspect_running] deaf r i
  show ?thesis
    by (simp add: Inspect_running Inspect_deaf)
qed

text \<open>
  C8. Along a run of \<open>Inspect\<close> (\<open>inst2\<close> after the host agent's probe, \<open>inst3\<close> after
  the Info query, \<open>inst4\<close> after the driver's probe): a status that is \<open>StatusBroken\<close>
  after one step is \<open>StatusBroken\<close> after every later one, and in the Instance returned.
  Every later step runs whatever the status, and what it does is fixed without reference
  to the status it finds: the Info query depends on the host agent's id alone; the
  driver's PID file is probed, its process id stored and its error, if any, appended with
  \<open>StatusBroken\<close>; the message is stored when the template parses, the global fields
  resolve and the template executes, and each of the three failures (parsing, global
  fields, execution) appends its own error and sets \<open>StatusBroken\<close>. Errors are only
  ever appended at the end. The status table is applied only when the status is still
  \<open>StatusUnknown\<close>: otherwise that step leaves the Instance as it is.
\<close>

theorem Inspect_Broken_is_kept:
  assumes "InstanceDir E instName = Inr instDir"
    and "LoadYAMLByFilePath E (filepath_Join E instDir (filenames_LimaYAML E)) = Inr y"
    and "Inspect_config E y (Inspect_init instName instDir) = Some inst1"
    and "Inspect_hostAgentPID E instDir inst1 W = (inst2, W2)"
    and "Inspect_hostAgentInfo E instDir inst2 W2 = (inst3, W3)"
    and "Inspect_driverPID E instDir y inst3 W3 = Some (inst4, W4)"
  shows "Inspect E instName W =
      (Return (Some (Inspect_message E y (Inspect_status inst4))) None, W4) \<and>
    (Status inst2 = StatusBroken \<longrightarrow> Status inst3 = StatusBroken) \<and>
    (Status inst3 = StatusBroken \<longrightarrow> Status inst4 = StatusBroken) \<and>
    (Status inst4 = StatusBroken \<longrightarrow> Status (Inspect_status inst4) = StatusBroken) \<and>
    (Status (Inspect_status inst4) = StatusBroken \<longrightarrow>
       Status (Inspect_message E y (Inspect_status inst4)) = StatusBroken) \<and>
    (\<exists>es. Errors inst3 = Errors inst2 @ es) \<and>
    (\<exists>vmType. LimaYAML.VMType y = Some vmType \<and>
       W4 = snd (ReadPIDFile (filepath_Join E instDir (filenames_PIDFile E vmType)) W3) \<and>
       DriverPID inst4 = fst (fst (ReadPIDFile (filepath_Join E instDir (filenames_PIDFile E vmType)) W3)) \<and>
       Errors inst4 = Errors inst3 @
         (case snd (fst (ReadPIDFile (filepath_Join E instDir (filenames_PIDFile E vmType)) W3)) of
            None \<Rightarrow> [] | Some e \<Rightarrow> [e])) \<and>
    (Status inst4 \<noteq> StatusUnknown \<longrightarrow> Inspect_status inst4 = inst4) \<and>
    (\<exists>es. Errors (Inspect_message E y (Inspect_status inst4)) = Errors (Inspect_status inst4) @ es) \<and>
    (\<forall>e. message_Parse E (LimaYAML.Message y) = Some e \<longrightarrow>
       Errors (Inspect_message E y (Inspect_status inst4)) = Errors (Inspect_status inst4) @
         [Errorf_w ''message %q is not a valid template: %w'' [LimaYAML.Message y] e]) \<and>
    (\<forall>data m. message_Parse E (LimaYAML.Message y) = None \<and>
       AddGlobalFields E (Inspect_status inst4) = Inr data \<and>
       message_Execute E (LimaYAML.Message y) data = (m, None) \<longrightarrow>
       Inspect_message E y (Inspect_status inst4) = (Inspect_status inst4)\<lparr>Message := m\<rparr>) \<and>
    (inst3, W3) =
      (if HostAgentPID inst2 = 0 then (inst2, W2)
       else (case client_error W2 (filepath_Join E instDir (filenames_HostAgentSock E)) of
               Some err \<Rightarrow>
                 (inst2\<lparr>Status := StatusBroken,
                        Errors := Errors inst2 @
                          [Errorf_w ''failed to connect to %q: %w''
                             [filepath_Join E instDir (filenames_HostAgentSock E)] err]\<rparr>,
                  W2\<lparr>calls := calls W2 @
                        [NewHostAgentClient (filepath_Join E instDir (filenames_HostAgentSock E))]\<rparr>)
             | None \<Rightarrow>
                (case info_result W2 (filepath_Join E instDir (filenames_HostAgentSock E)) of
                   Inl err \<Rightarrow>
                     (inst2\<lparr>Status := StatusBroken,
                            Errors := Errors inst2 @
                              [Errorf_w ''failed to get Info from %q: %w''
                                 [filepath_Join E instDir (filenames_HostAgentSock E)] err]\<rparr>,
                      W2\<lparr>calls := calls W2 @
                            [NewHostAgentClient (filepath_Join E instDir (filenames_HostAgentSock E)),
                             Info (filepath_Join E instDir (filenames_HostAgentSock E))]\<rparr>)
                 | Inr info \<Rightarrow>
                     (inst2\<lparr>SSHLocalPort := api_Info.SSHLocalPort info\<rparr>,
                      W2\<lparr>calls := calls W2 @
                            [NewHostAgentClient (filepath_Join E instDir (filenames_HostAgentSock E)),
                             Info (filepath_Join E instDir (filenames_HostAgentSock E))]\<rparr>)))) \<and>
    (\<exists>vmType. LimaYAML.VMType y = Some vmType \<and>
       inst4 = inst3
         \<lparr>DriverPID := fst (fst (ReadPIDFile (filepath_Join E instDir (filenames_PIDFile E vmType)) W3)),
          Status :=
            (case snd (fst (ReadPIDFile (filepath_Join E instDir (filenames_PIDFile E vmType)) W3)) of
               None \<Rightarrow> Status inst3 | Some err \<Rightarrow> StatusBroken),
          Errors := Errors inst3 @
            (case snd (fst (ReadPIDFile (filepath_Join E instDir (filenames_PIDFile E vmType)) W3)) of
               None \<Rightarrow> [] | Some err \<Rightarrow> [err])\<rparr>) \<and>
    (\<forall>e. message_Parse E (LimaYAML.Message y) = Some e \<longrightarrow>
       Inspect_message E y (Inspect_status inst4) =
         (Inspect_status inst4)
           \<lparr>Errors := Errors (Inspect_status inst4) @
              [Errorf_w ''message %q is not a valid template: %w'' [LimaYAML.Message y] e],
            Status := StatusBroken\<rparr>) \<and>
    (\<forall>e. message_Parse E (LimaYAML.Message y) = None \<and>
       AddGlobalFields E (Inspect_status inst4) = Inl e \<longrightarrow>
       Inspect_message E y (Inspect_status inst4) =
         (Inspect_status inst4)
           \<lparr>Errors := Errors (Inspect_status inst4) @
              [Errorf_w ''cannot add global fields to instance data: %w'' [] e],
            Status := StatusBroken\<rparr>) \<and>
    (\<forall>data m e. message_Parse E (LimaYAML.Message y) = None \<and>
       AddGlobalFields E (Inspect_status inst4) = Inr data \<and>
       message_Execute E (LimaYAML.Message y) data = (m, Some e) \<longrightarrow>
       Inspect_message E y (Inspect_status inst4) =
         (Inspect_status inst4)
           \<lparr>Errors := Errors (Inspect_status inst4) @
              [Errorf_w ''cannot execute template %q: %w'' [LimaYAML.Message y] e],
            Status := StatusBroken\<rparr>)"
proof -
  note steps = Inspect_steps [OF assms]
  have b3: "Status inst2 = StatusBroken \<longrightarrow> Status inst3 = StatusBroken"
    using assms(5) by (auto simp add: Inspect_hostAgentInfo_eq split: if_splits option.splits sum.splits)
  have e3: "\<exists>es. Errors inst3 = Errors inst2 @ es"
    using assms(5) by (auto simp add: Inspect_hostAgentInfo_eq split: if_splits option.splits sum.splits)
  have b4: "Status inst3 = StatusBroken \<longrightarrow> Status inst4 = StatusBroken"
    using Inspect_driverPID_frame [OF assms(6)] by simp
  have b5: "Status inst4 = StatusBroken \<longrightarrow> Status (Inspect_status inst4) = StatusBroken"
    by (simp add: Inspect_status_Broken)
  have b6: "Status (Inspect_status inst4) = StatusBroken \<longrightarrow>
       Status (Inspect_message E y (Inspect_status inst4)) = StatusBroken"
    by (simp add: Inspect_message_Broken)
  from Inspect_config_eq [OF assms(3)] obtain vmType where vm: "LimaYAML.VMType y = Some vmType"
    by auto
  have d4: "\<exists>vmType. LimaYAML.VMType y = Some vmType \<and>
       W4 = snd (ReadPIDFile (filepath_Join E instDir (filenames_PIDFile E vmType)) W3) \<and>
       DriverPID inst4 = fst (fst (ReadPIDFile (filepath_Join E instDir (filenames_PIDFile E vmType)) W3)) \<and>
       Errors inst4 = Errors inst3 @
         (case snd (fst (ReadPIDFile (filepath_Join E instDir (filenames_PIDFile E vmType)) W3)) of
            None \<Rightarrow> [] | Some e \<Rightarrow> [e])"
    using assms(6) vm by (auto simp add: Inspect_driverPID_eq [OF vm])
  have t: "Status inst4 \<noteq> StatusUnknown \<longrightarrow> Inspect_status inst4 = inst4"
    by (simp add: Inspect_status_def)
  have m1: "\<exists>es. Errors (Inspect_message E y (Inspect_status inst4)) = Errors (Inspect_status inst4) @ es"
    by (rule Inspect_message_Errors)
  have m2: "\<forall>e. message_Parse E (LimaYAML.Message y) = Some e \<longrightarrow>
       Errors (Inspect_message E y (Inspect_status inst4)) = Errors (Inspect_status inst4) @
         [Errorf_w ''message %q is not a valid template: %w'' [LimaYAML.Message y] e]"
    by (simp add: Inspect_message_def)
  have m3: "\<forall>data m. message_Parse E (LimaYAML.Message y) = None \<and>
       AddGlobalFields E (Inspect_status inst4) = Inr data \<and>
       message_Execute E (LimaYAML.Message y) data = (m, None) \<longrightarrow>
       Inspect_message E y (Inspect_status inst4) = (Inspect_status inst4)\<lparr>Message := m\<rparr>"
    by (simp add: Inspect_message_ok)
  note i3 = assms(5) [unfolded Inspect_hostAgentInfo_eq, symmetric]
  have i4: "\<exists>vmType. LimaYAML.VMType y = Some vmType \<and>
       inst4 = inst3
         \<lparr>DriverPID := fst (fst (ReadPIDFile (filepath_Join E instDir (filenames_PIDFile E vmType)) W3)),
          Status :=
            (case snd (fst (ReadPIDFile (filepath_Join E instDir (filenames_PIDFile E vmType)) W3)) of
               None \<Rightarrow> Status inst3 | Some err \<Rightarrow> StatusBroken),
          Errors := Errors inst3 @
            (case snd (fst (ReadPIDFile (filepath_Join E instDir (filenames_PIDFile E vmType)) W3)) of
               None \<Rightarrow> [] | Some err \<Rightarrow> [err])\<rparr>"
    using assms(6) vm by (simp add: Inspect_driverPID_eq [OF vm])
  have m4: "\<forall>e. message_Parse E (LimaYAML.Message y) = Some e \<longrightarrow>
       Inspect_message E y (Inspect_status inst4) =
         (Inspect_status inst4)
           \<lparr>Errors := Errors (Inspect_status inst4) @
              [Errorf_w ''message %q is not a valid template: %w'' [LimaYAML.Message y] e],
            Status := StatusBroken\<rparr>"
    by (simp add: Inspect_message_parse_error)
  have m5: "\<forall>e. message_Parse E (LimaYAML.Message y) = None \<and>
       AddGlobalFields E (Inspect_status inst4) = Inl e \<longrightarrow>
       Inspect_message E y (Inspect_status inst4) =
         (Inspect_status inst4)
           \<lparr>Errors := Errors (Inspect_status inst4) @
              [Errorf_w ''cannot add global fields to instance data: %w'' [] e],
            Status := StatusBroken\<rparr>"
    by (simp add: Inspect_message_fields_error)
  have m6: "\<forall>data m e. message_Parse E (LimaYAML.Message y) = None \<and>
       AddGlobalFields E (Inspect_status inst4) = Inr data \<and>
       message_Execute E (LimaYAML.Message y) data = (m, Some e) \<longrightarrow>
       Inspect_message E y (Inspect_status inst4) =
         (Inspect_status inst4)
           \<lparr>Errors := Errors (Inspect_status inst4) @
              [Errorf_w ''cannot execute template %q: %w'' [LimaYAML.Message y] e],
            Status := StatusBroken\<rparr>"
    by (simp add: Inspect_message_execute_error)
  show ?thesis
    by (intro conjI) (rule steps b3 b4 b5 b6 e3 d4 t m1 m2 m3 i3 i4 m4 m5 m6)+
qed

theorem Inspect_Broken_is_kept_witness:
  "Status garbled_instance = StatusBroken \<and>
   Inspect example_env ''default'' garbled_world =
     (Return (Some (garbled_instance
        \<lparr>Message := ''ready'',
         Errors := [Errorf ''strconv.Atoi: parsing %q: invalid syntax'' [''abc''],
                    Errorf ''strconv.Atoi: parsing %q: invalid syntax'' [''4250x'']]\<rparr>)) None,
      garbled_world\<lparr>calls := [ReadFile ''/home/u/.lima/default/ha.pid'',
                                ReadFile ''/home/u/.lima/default/qemu.pid'']\<rparr>) \<and>
   Status (garbled_instance
        \<lparr>Message := ''ready'',
         Errors := [Errorf ''strconv.Atoi: parsing %q: invalid syntax'' [''abc''],
                    Errorf ''strconv.Atoi: parsing %q: invalid syntax'' [''4250x'']]\<rparr>) = StatusBroken \<and>
   Inspect mute_env ''default'' garbled_world =
     (Return (Some (garbled_instance
        \<lparr>Errors := [Errorf ''strconv.Atoi: parsing %q: invalid syntax'' [''abc''],
                    Errorf ''strconv.Atoi: parsing %q: invalid syntax'' [''4250x''],
                    Errorf_w ''cannot execute template %q: %w'' [''ready'']
                      (errors_New ''template: format:1:3: executing at <.Nope>'')]\<rparr>)) None,
      garbled_world\<lparr>calls := [ReadFile ''/home/u/.lima/default/ha.pid'',
                                ReadFile ''/home/u/.lima/default/qemu.pid'']\<rparr>)"
proof -
  let ?g = "garbled_instance
        \<lparr>Errors := [Errorf ''strconv.Atoi: parsing %q: invalid syntax'' [''abc''],
                    Errorf ''strconv.Atoi: parsing %q: invalid syntax'' [''4250x'']]\<rparr>"
  have m: "Inspect_message example_env example_config (Inspect_status ?g) = ?g\<lparr>Message := ''ready''\<rparr>"
    by (simp add: Inspect_defs example_defs configured_instance_def garbled_instance_def)
  have k: "Inspect_status ?g = ?g"
    by (simp add: Inspect_status_def garbled_instance_def StatusBroken_def StatusUnknown_def)
  have p: "message_Parse mute_env (LimaYAML.Message example_config) = None"
    by (simp add: mute_env_def example_env_def example_config_def)
  have a: "AddGlobalFields mute_env ?g =
      Inr \<lparr>Instance = ?g, HostOS = ''linux'', HostArch = ''x86_64'', LimaHome = ''/home/u/.lima'',
           IdentityFile = ''/home/u/.lima/_config/user''\<rparr>"
    by (simp add: AddGlobalFields_def mute_env_def example_env_def)
  have x: "message_Execute mute_env (LimaYAML.Message example_config)
      \<lparr>Instance = ?g, HostOS = ''linux'', HostArch = ''x86_64'', LimaHome = ''/home/u/.lima'',
           IdentityFile = ''/home/u/.lima/_config/user''\<rparr> =
      (''re'', Some (errors_New ''template: format:1:3: executing at <.Nope>''))"
    by (simp add: mute_env_def example_env_def)
  note run = Inspect_Broken_is_kept [OF example_dir example_load garbled_steps, THEN conjunct1]
  note all = Inspect_Broken_is_kept [OF mute_dir mute_load garbled_steps_mute]
  note run2 = all [THEN conjunct1]
  have last: "\<forall>data m e. message_Parse mute_env (LimaYAML.Message example_config) = None \<and>
       AddGlobalFields mute_env (Inspect_status ?g) = Inr data \<and>
       message_Execute mute_env (LimaYAML.Message example_config) data = (m, Some e) \<longrightarrow>
       Inspect_message mute_env example_config (Inspect_status ?g) =
         (Inspect_status ?g)
           \<lparr>Errors := Errors (Inspect_status ?g) @
              [Errorf_w ''cannot execute template %q: %w'' [LimaYAML.Message example_config] e],
            Status := StatusBroken\<rparr>"
    using all by (elim conjE) assumption
  from last p a x
  have m2: "Inspect_message mute_env example_config (Inspect_status ?g) =
      (Inspect_status ?g)
           \<lparr>Errors := Errors (Inspect_status ?g) @
              [Errorf_w ''cannot execute template %q: %w'' [LimaYAML.Message example_config]
                 (errors_New ''template: format:1:3: executing at <.Nope>'')],
            Status := StatusBroken\<rparr>"
    unfolding k by blast
  have msg: "LimaYAML.Message example_config = ''ready''" by (simp add: example_config_def)
  note m3 = m2 [unfolded k msg]
  have s: "Status garbled_instance = StatusBroken" by (simp add: garbled_instance_def)
  have r1: "Inspect example_env ''default'' garbled_world =
     (Return (Some (?g\<lparr>Message := ''ready''\<rparr>)) None,
      garbled_world\<lparr>calls := [ReadFile ''/home/u/.lima/default/ha.pid'',
                                ReadFile ''/home/u/.lima/default/qemu.pid'']\<rparr>)"
    using run by (simp add: m)
  have r2: "Inspect mute_env ''default'' garbled_world =
     (Return (Some (?g\<lparr>Errors := Errors ?g @
              [Errorf_w ''cannot execute template %q: %w'' [''ready'']
                 (errors_New ''template: format:1:3: executing at <.Nope>'')],
            Status := StatusBroken\<rparr>)) None,
      garbled_world\<lparr>calls := [ReadFile ''/home/u/.lima/default/ha.pid'',
                                ReadFile ''/home/u/.lima/default/qemu.pid'']\<rparr>)"
    using run2 unfolding k by (simp add: m3)
  from s r1 r2 show ?thesis by (simp add: garbled_instance_def)
qed






end
